theory Spec2Isabelle
  imports Main "HOL-Library.AList"
begin

unbundle bit_operations_syntax

section \<open>Data model\<close>

text \<open>
  The routing core of the Kademlia node: \<^verbatim>\<open>lib/bucket.js\<close>, \<^verbatim>\<open>lib/routing-table.js\<close> and
  \<^verbatim>\<open>lib/router.js\<close>. Callback-passing code is embedded as state passing: a function takes
  the objects it mutates and returns them updated together with what it hands to its
  callback (\<open>Inl\<close> an error, \<open>Inr\<close> a result). An exception that escapes a function
  (a failed \<^verbatim>\<open>assert\<close>, a \<^verbatim>\<open>TypeError\<close>) is an \<open>Inl\<close> as well: \<open>AssertionError\<close> and
  \<open>TypeError\<close> are never passed to a callback by this code, so the two readings cannot be
  confused.

  Node identifiers are the unsigned values of the B-bit identifiers (the source holds them
  as hexadecimal strings). \<^verbatim>\<open>lib/contact.js\<close>, \<^verbatim>\<open>lib/constants.js\<close> and \<^verbatim>\<open>lib/utils.js\<close>
  are not among the sources: a contact is the record the specification describes, the
  constants K, B and ALPHA are parameters. A contact is a JavaScript object: \<open>oid\<close> is
  the identity of the object, so two contact values are the same object (\<^verbatim>\<open>===\<close>) exactly
  when their \<open>oid\<close> is equal, whatever their other fields hold at the time.
\<close>

type_synonym id = nat

record Contact =
  oid :: nat
  nodeID :: id
  address :: string
  lastSeen :: nat

record constants =
  K :: nat
  B :: nat
  ALPHA :: nat

datatype error =
    BucketFull
  | AlreadyInBucket
  | NotInBucket
  | BucketDoesNotExist
  | NotFound
  | NotConnected
  | LookupFailed
  | RpcTimeout
  | AssertionError
  | TypeError

text \<open>
  A storage adapter (\<^verbatim>\<open>get\<close>, \<^verbatim>\<open>put\<close>, \<^verbatim>\<open>del\<close>) is an in-memory key-value store whose
  operations succeed, except \<^verbatim>\<open>get\<close> of an absent key: there the adapter calls back with
  an error when \<open>miss_is_error\<close> holds, and with neither an error nor a result
  otherwise. Its key namespaces are disjoint, so
  the store is one map per namespace: the \<^verbatim>\<open>ROUTING-TABLE\<close> snapshot, the \<^verbatim>\<open>BUCKET-i\<close>
  orders, the \<^verbatim>\<open>BUCKETS\<close> index list and the contact records by node id. A JSON object
  is an association list; \<^verbatim>\<open>JSON.parse (JSON.stringify v)\<close> is \<open>v\<close>.
\<close>

record Store =
  routing_table_record :: "(nat \<times> id list) list option"
  bucket_records :: "nat \<rightharpoonup> id list"
  buckets_record :: "nat list option"
  contact_records :: "id \<rightharpoonup> Contact"
  miss_is_error :: bool

text \<open>
  A Bucket object: \<^verbatim>\<open>index\<close>, \<^verbatim>\<open>contacts\<close> (the order of node ids), \<^verbatim>\<open>_cache\<close> (a JavaScript
  object from node id to contact, in insertion order) and \<^verbatim>\<open>_storage\<close>.
\<close>

record Bucket =
  index :: nat
  contacts :: "id list"
  cache :: "(id \<times> Contact) list"
  bucket_storage :: Store

text \<open>
  What \<^verbatim>\<open>new Bucket(index, storage)\<close> is given as its storage: an adapter, or the routing
  table object itself (\<^verbatim>\<open>new Bucket(index, self)\<close> in \<^verbatim>\<open>routing-table.js\<close>).
\<close>

datatype storage_arg = Adapter Store | TableObject

text \<open>
  A RoutingTable object: \<^verbatim>\<open>_buckets\<close> is \<open>None\<close> while the property is undefined (the
  constructor does not set it), else the object from bucket index to Bucket.
\<close>

record RoutingTable =
  buckets :: "(nat \<times> Bucket) list option"
  storage :: Store

section \<open>lodash helpers\<close>

text \<open>
  \<^verbatim>\<open>_.indexOf\<close>: the first position of the element, or -1.
\<close>

fun index_from :: "int \<Rightarrow> 'a list \<Rightarrow> 'a \<Rightarrow> int" where
  "index_from i [] x = -1"
| "index_from i (y # ys) x = (if y = x then i else index_from (i + 1) ys x)"

definition lodash_indexOf :: "'a list \<Rightarrow> 'a \<Rightarrow> int" where
  "lodash_indexOf xs x = index_from 0 xs x"

text \<open>
  \<^verbatim>\<open>_.sortedIndex(array, value, iteratee)\<close> of lodash 3: a binary search for the lowest
  index at which the value keeps the array sorted by the iteratee. The iteratee is
  partial: \<^verbatim>\<open>self._cache[nodeID].lastSeen\<close> throws a TypeError for a node id that the cache
  does not hold.
\<close>

function binaryIndexBy :: "(id \<Rightarrow> nat option) \<Rightarrow> id list \<Rightarrow> nat \<Rightarrow> nat \<Rightarrow> nat \<Rightarrow> error + nat" where
  "binaryIndexBy iteratee array v low high =
     (if low < high then
        (case iteratee (array ! ((low + high) div 2)) of
           None \<Rightarrow> Inl TypeError
         | Some computed \<Rightarrow>
             if computed < v then binaryIndexBy iteratee array v ((low + high) div 2 + 1) high
             else binaryIndexBy iteratee array v low ((low + high) div 2))
      else Inr high)"
  by pat_completeness auto
termination
  by (relation "measure (\<lambda>(iteratee, array, v, low, high). high - low)") auto

declare binaryIndexBy.simps [simp del]

definition sortedIndex :: "id list \<Rightarrow> id \<Rightarrow> (id \<Rightarrow> nat option) \<Rightarrow> error + nat" where
  "sortedIndex array x iteratee =
     (case iteratee x of
        None \<Rightarrow> Inl TypeError
      | Some v \<Rightarrow> binaryIndexBy iteratee array v 0 (length array))"

text \<open>
  \<^verbatim>\<open>array.splice(idx, 0, x)\<close>.
\<close>

definition splice_insert :: "nat \<Rightarrow> 'a \<Rightarrow> 'a list \<Rightarrow> 'a list" where
  "splice_insert idx x xs = take idx xs @ [x] @ drop idx xs"

text \<open>
  \<^verbatim>\<open>array.splice(idx, 1)\<close>.
\<close>

definition splice_remove :: "nat \<Rightarrow> 'a list \<Rightarrow> 'a list" where
  "splice_remove idx xs = take idx xs @ drop (Suc idx) xs"

section \<open>Bucket (lib/bucket.js)\<close>

text \<open>
  The constructor asserts the index range and, in \<^verbatim>\<open>_setStorageAdapter\<close>, that the
  storage object has the methods \<^verbatim>\<open>get\<close>, \<^verbatim>\<open>put\<close>, \<^verbatim>\<open>del\<close> and \<^verbatim>\<open>createReadStream\<close>.
  \<^verbatim>\<open>RoutingTable.prototype\<close> defines the methods listed in \<open>RoutingTable_methods\<close> and none
  of these four, so the assertion fails for the routing table object.
\<close>

definition RoutingTable_methods :: "string list" where
  "RoutingTable_methods =
     [''_load'', ''save'', ''getSize'', ''getIndexes'', ''empty'', ''getBucket'', ''hasBucket'',
      ''getContact'', ''setContact'', ''inTable'', ''_validStorageAdapter'']"

definition adapter_methods :: "string list" where
  "adapter_methods = [''get'', ''put'', ''del'', ''createReadStream'']"

definition methods_of :: "storage_arg \<Rightarrow> string list" where
  "methods_of arg = (case arg of Adapter s \<Rightarrow> adapter_methods | TableObject \<Rightarrow> RoutingTable_methods)"

definition Bucket_new :: "constants \<Rightarrow> nat \<Rightarrow> storage_arg \<Rightarrow> error + Bucket" where
  "Bucket_new c i arg =
     (if \<not> i \<le> B c then Inl AssertionError
      else if \<not> list_all (\<lambda>m. m \<in> set (methods_of arg)) adapter_methods then Inl AssertionError
      else (case arg of
              Adapter s \<Rightarrow> Inr \<lparr>index = i, contacts = [], cache = [], bucket_storage = s\<rparr>
            | TableObject \<Rightarrow> Inl AssertionError))"

definition getSize :: "Bucket \<Rightarrow> nat" where
  "getSize b = length (contacts b)"

text \<open>
  A Bucket has no \<^verbatim>\<open>length\<close> property: neither the constructor nor the prototype
  defines one, so reading it yields \<^verbatim>\<open>undefined\<close> (\<open>None\<close>).
\<close>

definition Bucket_length :: "Bucket \<Rightarrow> nat option" where
  "Bucket_length b = None"

definition getContactList :: "Bucket \<Rightarrow> Contact list" where
  "getContactList b = map snd (cache b)"

definition hasContact :: "Bucket \<Rightarrow> id \<Rightarrow> bool" where
  "hasContact b n = (n \<in> set (contacts b))"

definition indexOf :: "Bucket \<Rightarrow> Contact \<Rightarrow> int" where
  "indexOf b contact = lodash_indexOf (contacts b) (nodeID contact)"

definition cache_lastSeen :: "Bucket \<Rightarrow> id \<Rightarrow> nat option" where
  "cache_lastSeen b n = map_option lastSeen (map_of (cache b) n)"

text \<open>
  \<^verbatim>\<open>Bucket.prototype.addContact\<close>: what the callback receives, and the bucket afterwards.
\<close>

definition addContact :: "constants \<Rightarrow> Bucket \<Rightarrow> Contact \<Rightarrow> (error + Contact) \<times> Bucket" where
  "addContact c b contact =
     (if getSize b = K c then (Inl BucketFull, b)
      else
        (let b1 = b\<lparr>cache := AList.update (nodeID contact) contact (cache b)\<rparr> in
         if nodeID contact \<notin> set (contacts b1) then
           (case sortedIndex (contacts b1) (nodeID contact) (cache_lastSeen b1) of
              Inl e \<Rightarrow> (Inl e, b1)
            | Inr idx \<Rightarrow>
                (Inr contact, b1\<lparr>contacts := splice_insert idx (nodeID contact) (contacts b1)\<rparr>))
         else (Inl AlreadyInBucket, b1)))"

text \<open>
  \<^verbatim>\<open>Bucket.prototype.removeContact\<close> calls its callback twice when the contact is present:
  with the contact, and then (there is no \<^verbatim>\<open>return\<close> or \<^verbatim>\<open>else\<close>) with the error. The
  result is what the first invocation of the callback receives, the error of the second
  invocation if there is one, and the bucket.
\<close>

definition Bucket_removeContact ::
  "Bucket \<Rightarrow> Contact \<Rightarrow> ((error + Contact) \<times> error option) \<times> Bucket" where
  "Bucket_removeContact b contact =
     (let i = lodash_indexOf (contacts b) (nodeID contact) in
      if i \<ge> 0 then
        ((Inr contact, Some NotInBucket), b\<lparr>contacts := splice_remove (nat i) (contacts b)\<rparr>)
      else ((Inl NotInBucket, None), b))"

text \<open>
  \<^verbatim>\<open>Bucket.prototype.save\<close>: put the order under \<^verbatim>\<open>BUCKET-i\<close>, then make sure the index is
  in the \<^verbatim>\<open>BUCKETS\<close> list.
\<close>

definition Bucket_save :: "Bucket \<Rightarrow> Bucket" where
  "Bucket_save b =
     (let s1 = (bucket_storage b)\<lparr>bucket_records := (bucket_records (bucket_storage b))(index b \<mapsto> contacts b)\<rparr>;
          results = (case buckets_record s1 of None \<Rightarrow> [] | Some r \<Rightarrow> r);
          results' = (if lodash_indexOf results (index b) < 0 then results @ [index b] else results)
      in b\<lparr>bucket_storage := s1\<lparr>buckets_record := Some results'\<rparr>\<rparr>)"

text \<open>
  \<^verbatim>\<open>Bucket.prototype.loadContacts\<close>: empty the cache, read every node id of the order from
  the storage and cache what is found under the record's own node id. For a missing
  record the iteration calls \<^verbatim>\<open>cb(err)\<close>: with an adapter that reports the miss as an
  error this is the error of the batch, and with an adapter that reports neither an
  error nor a result \<^verbatim>\<open>err\<close> is falsy, the entry is skipped and the load succeeds. The
  callback receives the error or nothing: the bucket is not passed on.
\<close>

fun load_each :: "Store \<Rightarrow> id list \<Rightarrow> (id \<times> Contact) list \<Rightarrow> (id \<times> Contact) list" where
  "load_each s [] acc = acc"
| "load_each s (n # ns) acc =
     (case contact_records s n of
        None \<Rightarrow> load_each s ns acc
      | Some r \<Rightarrow> load_each s ns (AList.update (nodeID r) r acc))"

definition loadContacts :: "Bucket \<Rightarrow> (error + unit) \<times> Bucket" where
  "loadContacts b =
     (if miss_is_error (bucket_storage b)
         \<and> \<not> list_all (\<lambda>n. contact_records (bucket_storage b) n \<noteq> None) (contacts b)
      then Inl NotFound else Inr (),
      b\<lparr>cache := load_each (bucket_storage b) (contacts b) []\<rparr>)"

section \<open>RoutingTable (lib/routing-table.js)\<close>

definition RoutingTable_new :: "Store \<Rightarrow> RoutingTable" where
  "RoutingTable_new s = \<lparr>buckets = None, storage = s\<rparr>"

text \<open>
  \<^verbatim>\<open>RoutingTable.prototype._load\<close>. A table whose \<^verbatim>\<open>_buckets\<close> is set returns at once.
  Otherwise the snapshot is parsed and iterated inside \<^verbatim>\<open>try\<close>; the loop body assigns
  \<^verbatim>\<open>self._buckets[index] = new Bucket(index, self)\<close>, and any exception makes the \<^verbatim>\<open>catch\<close>
  block set \<^verbatim>\<open>_buckets = {}\<close>. \<^verbatim>\<open>JSON.parse\<close> of a missing record throws.
\<close>

fun load_entries ::
  "constants \<Rightarrow> (nat \<times> Bucket) list option \<Rightarrow> (nat \<times> id list) list \<Rightarrow> error + (nat \<times> Bucket) list option" where
  "load_entries c bs [] = Inr bs"
| "load_entries c bs ((i, ids) # rest) =
     (case bs of
        None \<Rightarrow> Inl TypeError
      | Some m \<Rightarrow>
          (case Bucket_new c i TableObject of
             Inl e \<Rightarrow> Inl e
           | Inr b \<Rightarrow> load_entries c (Some (AList.update i b m)) rest))"

definition load :: "constants \<Rightarrow> RoutingTable \<Rightarrow> RoutingTable" where
  "load c rt =
     (case buckets rt of
        Some bs \<Rightarrow> rt
      | None \<Rightarrow>
          (case routing_table_record (storage rt) of
             None \<Rightarrow> rt\<lparr>buckets := Some []\<rparr>
           | Some snapshot \<Rightarrow>
               (case load_entries c (buckets rt) snapshot of
                  Inl e \<Rightarrow> rt\<lparr>buckets := Some []\<rparr>
                | Inr bs \<Rightarrow> rt\<lparr>buckets := bs\<rparr>)))"

text \<open>
  \<^verbatim>\<open>RoutingTable.prototype.save\<close>: the snapshot maps every bucket index to the bucket's
  order (\<^verbatim>\<open>_.forEach\<close> over an undefined \<^verbatim>\<open>_buckets\<close> visits nothing).
\<close>

definition RoutingTable_save :: "RoutingTable \<Rightarrow> RoutingTable" where
  "RoutingTable_save rt =
     rt\<lparr>storage := (storage rt)\<lparr>routing_table_record :=
        Some (case buckets rt of None \<Rightarrow> [] | Some bs \<Rightarrow> map (\<lambda>(i, b). (i, contacts b)) bs)\<rparr>\<rparr>"

text \<open>
  \<^verbatim>\<open>RoutingTable.prototype.getIndexes\<close>: \<^verbatim>\<open>_.keys\<close> of the loaded \<^verbatim>\<open>_buckets\<close> (of an
  undefined value: the empty list).
\<close>

definition getIndexes :: "constants \<Rightarrow> RoutingTable \<Rightarrow> nat list \<times> RoutingTable" where
  "getIndexes c rt =
     (let rt' = load c rt in
      (case buckets rt' of None \<Rightarrow> [] | Some bs \<Rightarrow> map fst bs, rt'))"

text \<open>
  The order of the bucket at an index, as the table holds it after loading.
\<close>

definition bucket_order :: "constants \<Rightarrow> RoutingTable \<Rightarrow> nat \<Rightarrow> id list option" where
  "bucket_order c rt i =
     (case buckets (load c rt) of
        None \<Rightarrow> None
      | Some bs \<Rightarrow> map_option contacts (map_of bs i))"

definition has_index :: "(nat \<times> Bucket) list option \<Rightarrow> nat \<Rightarrow> bool" where
  "has_index obj i = (case obj of None \<Rightarrow> False | Some bs \<Rightarrow> map_of bs i \<noteq> None)"

text \<open>
  \<^verbatim>\<open>RoutingTable.prototype.hasBucket\<close>: after loading, the error unless the index is a key
  of \<^verbatim>\<open>_buckets\<close> and \<^verbatim>\<open>self._buckets[index].length === 0\<close> is false.
\<close>

definition hasBucket :: "constants \<Rightarrow> RoutingTable \<Rightarrow> nat \<Rightarrow> (error + unit) \<times> RoutingTable" where
  "hasBucket c rt i =
     (let rt' = load c rt in
      (case buckets rt' of
         None \<Rightarrow> Inl BucketDoesNotExist
       | Some bs \<Rightarrow>
           (case map_of bs i of
              None \<Rightarrow> Inl BucketDoesNotExist
            | Some b \<Rightarrow> if Bucket_length b = Some 0 then Inl BucketDoesNotExist else Inr ()),
       rt'))"

text \<open>
  \<^verbatim>\<open>RoutingTable.prototype.getBucket\<close>: after loading, the bucket at the index; an absent
  one is constructed with the table itself as its storage, stored and the snapshot saved.
  Assigning into an undefined \<^verbatim>\<open>_buckets\<close> throws a TypeError.
\<close>

definition getBucket :: "constants \<Rightarrow> RoutingTable \<Rightarrow> nat \<Rightarrow> (error + Bucket) \<times> RoutingTable" where
  "getBucket c rt i =
     (let rt' = load c rt in
      (case buckets rt' of
         None \<Rightarrow> (Inl TypeError, rt')
       | Some bs \<Rightarrow>
           (case map_of bs i of
              Some b \<Rightarrow> (Inr b, rt')
            | None \<Rightarrow>
                (case Bucket_new c i TableObject of
                   Inl e \<Rightarrow> (Inl e, rt')
                 | Inr b \<Rightarrow> (Inr b, RoutingTable_save (rt'\<lparr>buckets := Some (AList.update i b bs)\<rparr>))))))"

text \<open>
  \<^verbatim>\<open>RoutingTable.prototype.setContact\<close>: put the serialised contact under its node id.
\<close>

definition setContact :: "RoutingTable \<Rightarrow> Contact \<Rightarrow> RoutingTable" where
  "setContact rt contact =
     rt\<lparr>storage := (storage rt)\<lparr>contact_records := (contact_records (storage rt))(nodeID contact \<mapsto> contact)\<rparr>\<rparr>"

section \<open>Identifier arithmetic\<close>

text \<open>
  Modelled from the spec: \<^verbatim>\<open>lib/utils.js\<close> is not among the sources. The specification
  gives \<^verbatim>\<open>getDistance\<close> as the bitwise XOR of two identifiers and \<^verbatim>\<open>compareKeys\<close> as
  their unsigned comparison, with results -1, 0 and 1. \<^verbatim>\<open>createID\<close> (a hash) and
  \<^verbatim>\<open>getBucketIndex\<close> are parameters of the environment below.
\<close>

definition getDistance :: "id \<Rightarrow> id \<Rightarrow> id" where
  "getDistance a b = a XOR b"

definition compareKeys :: "id \<Rightarrow> id \<Rightarrow> int" where
  "compareKeys a b = (if a < b then -1 else if b < a then 1 else 0)"

section \<open>Router (lib/router.js)\<close>

text \<open>
  Messages, items and responses (\<^verbatim>\<open>lib/message.js\<close>, \<^verbatim>\<open>lib/item.js\<close> are not among the
  sources; the records hold the fields the router reads and writes).
\<close>

record Item =
  item_key :: string
  item_value :: string
  publisher :: id
  timestamp :: nat

datatype rpc_method = PING | STORE | FIND_NODE | FIND_VALUE

record message =
  msg_method :: rpc_method
  msg_key :: "string option"
  msg_item :: "Item option"
  msg_contact :: Contact

record response =
  result_nodes :: "Contact list"
  result_item :: "Item option"

text \<open>
  The environment of a router: the constants, the local contact (\<^verbatim>\<open>this._self\<close>), the two
  utilities taken as parameters, the optional validator, the transport (what
  \<^verbatim>\<open>this._rpc.send\<close> hands to its callback for a contact and a message), the clock
  (\<^verbatim>\<open>Date.now()\<close> as \<^verbatim>\<open>contact.seen()\<close> reads it), the contact constructor of the
  transport (\<^verbatim>\<open>this._rpc._createContact\<close>) and the constructor of \<^verbatim>\<open>lib/item.js\<close>
  (\<^verbatim>\<open>new Item(key, value, publisher, timestamp)\<close>, which returns the item it builds or
  throws). Neither constructor is among the sources: both are parameters.
\<close>

record env =
  cfg :: constants
  self :: Contact
  createID :: "string \<Rightarrow> id"
  getBucketIndex :: "id \<Rightarrow> id \<Rightarrow> nat"
  validator :: "(string \<Rightarrow> string \<Rightarrow> bool) option"
  transport :: "Contact \<Rightarrow> message \<Rightarrow> error + response"
  clock :: nat
  createContact :: "Contact \<Rightarrow> Contact"
  newItem :: "Item \<Rightarrow> error + Item"

datatype event = Add Contact nat int | Drop Contact | Shift Contact nat int

record Router =
  routingTable :: RoutingTable
  emitted :: "event list"

text \<open>
  What a function receives in a parameter position: nothing (\<^verbatim>\<open>undefined\<close>), the
  continuation that \<^verbatim>\<open>async.waterfall\<close> appends to the results of the previous task, or
  an object. \<^verbatim>\<open>async.waterfall\<close> calls each task with the results the previous task gave
  to its callback, followed by the continuation; the final callback receives the error,
  or the results of the last task.
\<close>

datatype 'a arg = Undefined | Callback | Obj 'a

text \<open>
  Buckets are objects shared with the table: a bucket changed by an operation is the
  bucket the table holds under that index.
\<close>

definition store_bucket :: "RoutingTable \<Rightarrow> nat \<Rightarrow> Bucket \<Rightarrow> RoutingTable" where
  "store_bucket rt i b =
     (case buckets rt of
        None \<Rightarrow> rt
      | Some bs \<Rightarrow> rt\<lparr>buckets := Some (AList.update i b bs)\<rparr>)"

text \<open>
  When a task calls its continuation with a result and then again with an error (as
  \<^verbatim>\<open>Bucket.prototype.removeContact\<close> does), \<^verbatim>\<open>async.waterfall\<close> of async 0.9 and 1.x, the
  releases that go with the lodash 3 calls of this code, runs the next task on the result
  and hands the error to the final callback, which is called once. \<open>final_result\<close> is
  what the final callback receives: the error of the second invocation, else the outcome
  of the chain.
\<close>

definition final_result :: "error option \<Rightarrow> error + 'b \<Rightarrow> error + 'b" where
  "final_result second chain =
     (case second of
        Some err \<Rightarrow> Inl err
      | None \<Rightarrow> chain)"

text \<open>
  \<^verbatim>\<open>Router.prototype.removeContact\<close>.
\<close>

definition Router_removeContact :: "env \<Rightarrow> Router \<Rightarrow> Contact \<Rightarrow> (error + unit) \<times> Router" where
  "Router_removeContact e r contact =
     (let i = getBucketIndex e (nodeID (self e)) (nodeID contact) in
      if \<not> i < B (cfg e) then (Inl AssertionError, r)
      else
        (case getBucket (cfg e) (routingTable r) i of
           (Inl err, rt1) \<Rightarrow> (Inl err, r\<lparr>routingTable := rt1\<rparr>)
         | (Inr bucket, rt1) \<Rightarrow>
             (case Bucket_removeContact bucket contact of
                ((Inr removed, second), bucket1) \<Rightarrow>
                  (final_result second (Inr ()),
                   r\<lparr>routingTable := store_bucket rt1 i (Bucket_save bucket1),
                     emitted := emitted r @ [Drop contact]\<rparr>)
              | ((Inl err, second), bucket1) \<Rightarrow>
                  (Inl err, r\<lparr>routingTable := store_bucket rt1 i bucket1\<rparr>))))"

text \<open>
  \<^verbatim>\<open>Router.prototype._moveContactToTail\<close>: remove, add, \<^verbatim>\<open>setContact\<close>, save the bucket,
  emit \<^verbatim>\<open>shift\<close>.
\<close>

definition moveContactToTail ::
  "env \<Rightarrow> Router \<Rightarrow> nat \<Rightarrow> Contact \<Rightarrow> Bucket \<Rightarrow> (error + unit) \<times> Router" where
  "moveContactToTail e r i contact bucket =
     (case Bucket_removeContact bucket contact of
        ((Inr removed, second), bucket1) \<Rightarrow>
          (case addContact (cfg e) bucket1 removed of
             (Inl err, bucket2) \<Rightarrow>
               (final_result second (Inl err),
                r\<lparr>routingTable := store_bucket (routingTable r) i bucket2\<rparr>)
           | (Inr added, bucket2) \<Rightarrow>
               (let rt1 = setContact (routingTable r) added;
                    bucket3 = Bucket_save bucket2
                in (final_result second (Inr ()),
                    r\<lparr>routingTable := store_bucket rt1 i bucket3,
                      emitted := emitted r @ [Shift contact (index bucket3) (indexOf bucket3 contact)]\<rparr>)))
      | ((Inl err, second), bucket1) \<Rightarrow>
          (Inl err, r\<lparr>routingTable := store_bucket (routingTable r) i bucket1\<rparr>))"

text \<open>
  \<^verbatim>\<open>Router.prototype._moveContactToHead\<close>: add, \<^verbatim>\<open>setContact\<close>, save the bucket, emit
  \<^verbatim>\<open>add\<close>.
\<close>

definition moveContactToHead ::
  "env \<Rightarrow> Router \<Rightarrow> nat \<Rightarrow> Contact \<Rightarrow> Bucket \<Rightarrow> (error + unit) \<times> Router" where
  "moveContactToHead e r i contact bucket =
     (case addContact (cfg e) bucket contact of
        (Inl err, bucket1) \<Rightarrow>
          (Inl err, r\<lparr>routingTable := store_bucket (routingTable r) i bucket1\<rparr>)
      | (Inr added, bucket1) \<Rightarrow>
          (let rt1 = setContact (routingTable r) added;
               bucket2 = Bucket_save bucket1
           in (Inr (),
               r\<lparr>routingTable := store_bucket rt1 i bucket2,
                 emitted := emitted r @ [Add contact (index bucket2) (indexOf bucket2 contact)]\<rparr>)))"

text \<open>
  \<^verbatim>\<open>Router.prototype._pingContactAtHead\<close> starts with \<^verbatim>\<open>bucket.getContactSync(0)\<close>.
  \<^verbatim>\<open>Bucket.prototype\<close> defines \<^verbatim>\<open>getSize\<close>, \<^verbatim>\<open>getContactList\<close>, \<^verbatim>\<open>getContact\<close>,
  \<^verbatim>\<open>addContact\<close>, \<^verbatim>\<open>removeContact\<close>, \<^verbatim>\<open>hasContact\<close>, \<^verbatim>\<open>indexOf\<close>, \<^verbatim>\<open>save\<close>, \<^verbatim>\<open>load\<close>,
  \<^verbatim>\<open>empty\<close>, \<^verbatim>\<open>loadContacts\<close> and \<^verbatim>\<open>_setStorageAdapter\<close>, and no \<^verbatim>\<open>getContactSync\<close>: the
  call throws a TypeError before the PING is sent, whatever the bucket holds.
\<close>

definition pingContactAtHead ::
  "env \<Rightarrow> Router \<Rightarrow> nat \<Rightarrow> Contact \<Rightarrow> Bucket \<Rightarrow> (error + unit) \<times> Router" where
  "pingContactAtHead e r i contact bucket = (Inl TypeError, r)"

text \<open>
  The final callback of the waterfall in \<^verbatim>\<open>Router.prototype.updateContact\<close>,
  \<^verbatim>\<open>function (err, bucket)\<close>: it calls \<^verbatim>\<open>bucket.hasContact\<close> whatever \<^verbatim>\<open>err\<close> is.
\<close>

definition updateContact_final ::
  "env \<Rightarrow> Router \<Rightarrow> nat \<Rightarrow> Contact \<Rightarrow> Bucket arg \<Rightarrow> (error + unit) \<times> Router" where
  "updateContact_final e r i contact bucket =
     (case bucket of
        Undefined \<Rightarrow> (Inl TypeError, r)
      | Callback \<Rightarrow> (Inl TypeError, r)
      | Obj b \<Rightarrow>
          if hasContact b (nodeID contact) then moveContactToTail e r i contact b
          else if getSize b < K (cfg e) then moveContactToHead e r i contact b
          else pingContactAtHead e r i contact b)"

text \<open>
  \<^verbatim>\<open>Router.prototype.updateContact\<close>: the assertion on the bucket index, \<^verbatim>\<open>contact.seen()\<close>,
  then the waterfall of \<^verbatim>\<open>setContact\<close>, \<^verbatim>\<open>getBucket\<close> and \<^verbatim>\<open>bucket.loadContacts(cb)\<close>.
  \<^verbatim>\<open>loadContacts\<close> hands its callback the error or nothing, and a failed task hands the
  final callback the error alone: in both cases its \<^verbatim>\<open>bucket\<close> parameter is undefined.
\<close>

definition updateContact :: "env \<Rightarrow> Router \<Rightarrow> Contact \<Rightarrow> (error + unit) \<times> Router" where
  "updateContact e r contact =
     (let bucketIndex = getBucketIndex e (nodeID (self e)) (nodeID contact) in
      if \<not> bucketIndex < B (cfg e) then (Inl AssertionError, r)
      else
        (let seen = contact\<lparr>lastSeen := clock e\<rparr>;
             rt1 = setContact (routingTable r) seen
         in case getBucket (cfg e) rt1 bucketIndex of
              (Inl err, rt2) \<Rightarrow> (Inl err, r\<lparr>routingTable := rt2\<rparr>)
            | (Inr bucket, rt2) \<Rightarrow>
                (case loadContacts bucket of
                   (loaded, bucket1) \<Rightarrow>
                     updateContact_final e (r\<lparr>routingTable := store_bucket rt2 bucketIndex bucket1\<rparr>)
                       bucketIndex seen Undefined)))"

text \<open>
  \<^verbatim>\<open>Router.prototype._getNearestFromBucket\<close>: nothing for a falsy argument; otherwise the
  cached contacts sorted by their distance to the key, cut at the limit. A function has
  no \<^verbatim>\<open>getContactList\<close>.
\<close>

definition getNearestFromBucket :: "Bucket arg \<Rightarrow> id \<Rightarrow> nat \<Rightarrow> error + Contact list" where
  "getNearestFromBucket bucket k limit =
     (case bucket of
        Undefined \<Rightarrow> Inr []
      | Callback \<Rightarrow> Inl TypeError
      | Obj b \<Rightarrow> Inr (take limit (sort_key (\<lambda>contact. getDistance (nodeID contact) k) (getContactList b))))"

text \<open>
  \<^verbatim>\<open>addToContacts\<close>, the body of the \<^verbatim>\<open>forEach\<close> in \<^verbatim>\<open>addNearestFromBucket\<close>.
\<close>

fun addToContacts :: "nat \<Rightarrow> id \<Rightarrow> Contact list \<Rightarrow> Contact list \<Rightarrow> Contact list" where
  "addToContacts limit n collected [] = collected"
| "addToContacts limit n collected (contact # rest) =
     addToContacts limit n
       (if length collected < limit \<and> nodeID contact \<noteq> n then collected @ [contact] else collected)
       rest"

definition addNearestFromBucket ::
  "env \<Rightarrow> string \<Rightarrow> nat \<Rightarrow> id \<Rightarrow> Contact list \<Rightarrow> Bucket arg \<Rightarrow> error + Contact list" where
  "addNearestFromBucket e k limit n collected bucket =
     (case getNearestFromBucket bucket (createID e k) (limit - length collected) of
        Inl err \<Rightarrow> Inl err
      | Inr nearest \<Rightarrow> Inr (addToContacts limit n collected nearest))"

text \<open>
  \<^verbatim>\<open>createBucket\<close> inside \<^verbatim>\<open>getNearestContacts\<close>: the waterfall of \<^verbatim>\<open>hasBucket\<close>,
  \<^verbatim>\<open>getBucket\<close>, \<^verbatim>\<open>bucket.loadContacts(loadContactsCb)\<close> and the task
  \<^verbatim>\<open>function (loadedBucket, addNearestCallback)\<close>. An error of a task ends the waterfall,
  and its final callback ignores the error. \<^verbatim>\<open>loadContacts\<close> gives its callback no
  result, so the last task is called with the continuation alone: \<^verbatim>\<open>loadedBucket\<close> is the
  continuation and \<^verbatim>\<open>addNearestCallback\<close> is undefined, and calling it throws.
\<close>

definition createBucket ::
  "env \<Rightarrow> string \<Rightarrow> nat \<Rightarrow> id \<Rightarrow> Contact list \<times> RoutingTable \<Rightarrow> nat
     \<Rightarrow> error + Contact list \<times> RoutingTable" where
  "createBucket e k limit n acc i =
     (case hasBucket (cfg e) (snd acc) i of
        (Inl err, rt1) \<Rightarrow> Inr (fst acc, rt1)
      | (Inr u, rt1) \<Rightarrow>
          (case getBucket (cfg e) rt1 i of
             (Inl err, rt2) \<Rightarrow> Inl err
           | (Inr bucket, rt2) \<Rightarrow>
               (case loadContacts bucket of
                  (Inl err, bucket1) \<Rightarrow> Inr (fst acc, store_bucket rt2 i bucket1)
                | (Inr u', bucket1) \<Rightarrow>
                    (case addNearestFromBucket e k limit n (fst acc) Callback of
                       Inl err \<Rightarrow> Inl err
                     | Inr collected \<Rightarrow> Inl TypeError))))"

text \<open>
  The two \<^verbatim>\<open>async.whilst\<close> loops of \<^verbatim>\<open>getNearestContacts\<close>.
\<close>

function ascending ::
  "env \<Rightarrow> string \<Rightarrow> nat \<Rightarrow> id \<Rightarrow> Contact list \<times> RoutingTable \<Rightarrow> nat
     \<Rightarrow> error + Contact list \<times> RoutingTable" where
  "ascending e k limit n acc ascBucketIndex =
     (if length (fst acc) < limit \<and> ascBucketIndex < B (cfg e) - 1 then
        (case createBucket e k limit n acc (ascBucketIndex + 1) of
           Inl err \<Rightarrow> Inl err
         | Inr acc' \<Rightarrow> ascending e k limit n acc' (ascBucketIndex + 1))
      else Inr acc)"
  by pat_completeness auto
termination
  by (relation "measure (\<lambda>(e, k, limit, n, acc, ascBucketIndex). B (cfg e) - 1 - ascBucketIndex)") auto

function descending ::
  "env \<Rightarrow> string \<Rightarrow> nat \<Rightarrow> id \<Rightarrow> Contact list \<times> RoutingTable \<Rightarrow> nat
     \<Rightarrow> error + Contact list \<times> RoutingTable" where
  "descending e k limit n acc descBucketIndex =
     (if length (fst acc) < limit \<and> descBucketIndex > 0 then
        (case createBucket e k limit n acc (descBucketIndex - 1) of
           Inl err \<Rightarrow> Inl err
         | Inr acc' \<Rightarrow> descending e k limit n acc' (descBucketIndex - 1))
      else Inr acc)"
  by pat_completeness auto
termination
  by (relation "measure (\<lambda>(e, k, limit, n, acc, descBucketIndex). descBucketIndex)") auto

declare ascending.simps [simp del] descending.simps [simp del]

text \<open>
  \<^verbatim>\<open>Router.prototype.getNearestContacts\<close>: the natural bucket, the ascending loop, the
  descending loop; the callback receives the collected contacts.
\<close>

definition getNearestContacts ::
  "env \<Rightarrow> RoutingTable \<Rightarrow> string \<Rightarrow> nat \<Rightarrow> id \<Rightarrow> error + Contact list \<times> RoutingTable" where
  "getNearestContacts e rt k limit n =
     (let i = getBucketIndex e (nodeID (self e)) (createID e k) in
      case createBucket e k limit n ([], rt) i of
        Inl err \<Rightarrow> Inl err
      | Inr acc1 \<Rightarrow>
          (case ascending e k limit n acc1 i of
             Inl err \<Rightarrow> Inl err
           | Inr acc2 \<Rightarrow> descending e k limit n acc2 i))"

section \<open>Iterative lookup (lib/router.js)\<close>

text \<open>
  The lookup calls \<^verbatim>\<open>updateContact\<close> and \<^verbatim>\<open>removeContact\<close> without a callback and does not
  wait for them: of such a call the lookup sees the synchronous part (the assertion on
  the bucket index and \<^verbatim>\<open>contact.seen()\<close>), and the call is recorded as an effect next to
  the messages sent. The queries of a batch run concurrently in the source; here their
  responses are handled in the order of the batch.
\<close>

datatype lookup_type = NODE | VALUE

datatype lookup_result = Nodes "Contact list" | Found "string option"

datatype effect = Send Contact message | UpdateContact Contact | RemoveContact Contact

type_synonym outcome = "(error + lookup_type \<times> lookup_result) \<times> effect list"

text \<open>
  The lookup state of \<^verbatim>\<open>_createLookupState\<close>. \<^verbatim>\<open>closestNode\<close> and \<^verbatim>\<open>closestNodeDistance\<close>
  are \<open>None\<close> while undefined, \<^verbatim>\<open>previousClosestNode\<close>, \<^verbatim>\<open>value\<close> and \<^verbatim>\<open>item\<close> while null or
  undefined.
\<close>

record state =
  type :: lookup_type
  key :: string
  hashedKey :: id
  limit :: nat
  previousClosestNode :: "Contact option"
  contacted :: "(id \<times> Contact) list"
  foundValue :: bool
  value' :: "string option"
  item :: "Item option"
  contactsWithoutValue :: "Contact list"
  shortlist :: "Contact list"
  closestNode :: "Contact option"
  closestNodeDistance :: "id option"

text \<open>
  \<^verbatim>\<open>_.uniq(array, false, 'nodeID')\<close>: the first contact of every node id.
\<close>

fun uniq_from :: "id list \<Rightarrow> Contact list \<Rightarrow> Contact list" where
  "uniq_from seen [] = []"
| "uniq_from seen (contact # rest) =
     (if nodeID contact \<in> set seen then uniq_from seen rest
      else contact # uniq_from (nodeID contact # seen) rest)"

definition addToShortList :: "state \<Rightarrow> Contact list \<Rightarrow> state" where
  "addToShortList st cs = st\<lparr>shortlist := uniq_from [] (shortlist st @ cs)\<rparr>"

definition removeFromShortList :: "state \<Rightarrow> id \<Rightarrow> state" where
  "removeFromShortList st n = st\<lparr>shortlist := filter (\<lambda>contact. nodeID contact \<noteq> n) (shortlist st)\<rparr>"

definition validateKeyValuePair :: "env \<Rightarrow> string \<Rightarrow> string \<Rightarrow> bool" where
  "validateKeyValuePair e k v = (case validator e of None \<Rightarrow> True | Some f \<Rightarrow> f k v)"

definition submit_removeContact :: "env \<Rightarrow> Contact \<Rightarrow> effect list \<Rightarrow> error + effect list" where
  "submit_removeContact e contact log =
     (if getBucketIndex e (nodeID (self e)) (nodeID contact) < B (cfg e)
      then Inr (log @ [RemoveContact contact]) else Inl AssertionError)"

definition submit_updateContact :: "env \<Rightarrow> Contact \<Rightarrow> effect list \<Rightarrow> error + Contact \<times> effect list" where
  "submit_updateContact e contact log =
     (if getBucketIndex e (nodeID (self e)) (nodeID contact) < B (cfg e)
      then Inr (contact\<lparr>lastSeen := clock e\<rparr>, log @ [UpdateContact (contact\<lparr>lastSeen := clock e\<rparr>)])
      else Inl AssertionError)"

text \<open>
  \<^verbatim>\<open>Router.prototype._validateFindResult\<close>. The result of a query is the state and whether
  the query counts as a failure (its callback received an error), or the exception.
\<close>

definition validateFindResult ::
  "env \<Rightarrow> state \<Rightarrow> effect list \<Rightarrow> Item \<Rightarrow> Contact \<Rightarrow> (error + state \<times> bool) \<times> effect list" where
  "validateFindResult e st log it contact =
     (if \<not> validateKeyValuePair e (key st) (item_value it) then
        (case submit_removeContact e contact log of
           Inl err \<Rightarrow> (Inl err, log)
         | Inr log1 \<Rightarrow> (Inr (removeFromShortList st (nodeID contact), False), log1))
      else
        (Inr (st\<lparr>foundValue := True, value' := Some (item_value it), item := Some it\<rparr>, False), log))"

text \<open>
  \<^verbatim>\<open>Router.prototype._handleFindResult\<close>. \<^verbatim>\<open>compareKeys\<close> reads both arguments as buffers
  and throws for an undefined distance.
\<close>

definition handleFindResult ::
  "env \<Rightarrow> state \<Rightarrow> effect list \<Rightarrow> response \<Rightarrow> Contact \<Rightarrow> (error + state \<times> bool) \<times> effect list" where
  "handleFindResult e st log msg contact =
     (let distance = getDistance (hashedKey st) (nodeID contact) in
      case submit_updateContact e contact log of
        Inl err \<Rightarrow> (Inl err, log)
      | Inr (seen, log1) \<Rightarrow>
          (let st1 = st\<lparr>contacted := AList.update (nodeID seen) seen (contacted st)\<rparr> in
           case closestNodeDistance st1 of
             None \<Rightarrow> (Inl TypeError, log1)
           | Some d \<Rightarrow>
               (let st2 =
                      (if compareKeys distance d = -1
                       then st1\<lparr>previousClosestNode := closestNode st1,
                                closestNode := Some seen,
                                closestNodeDistance := Some distance\<rparr>
                       else st1)
                in if type st2 = NODE then
                     (Inr (addToShortList st2 (result_nodes msg), False), log1)
                   else
                     (case result_item msg of
                        None \<Rightarrow>
                          (Inr (addToShortList
                                  (st2\<lparr>contactsWithoutValue := contactsWithoutValue st2 @ [seen]\<rparr>)
                                  (result_nodes msg), False), log1)
                      | Some it \<Rightarrow> validateFindResult e st2 log1 it seen))))"

definition find_message :: "env \<Rightarrow> state \<Rightarrow> message" where
  "find_message e st =
     \<lparr>msg_method = (case type st of NODE \<Rightarrow> FIND_NODE | VALUE \<Rightarrow> FIND_VALUE),
      msg_key = Some (key st), msg_item = None, msg_contact = self e\<rparr>"

text \<open>
  \<^verbatim>\<open>Router.prototype._queryContact\<close>: the contact queried, removed and updated is the one
  that \<^verbatim>\<open>this._rpc._createContact(contactInfo)\<close> builds from the entry of the batch.
\<close>

definition queryContact ::
  "env \<Rightarrow> state \<Rightarrow> effect list \<Rightarrow> Contact \<Rightarrow> (error + state \<times> bool) \<times> effect list" where
  "queryContact e st log contactInfo =
     (let contact = createContact e contactInfo;
          log1 = log @ [Send contact (find_message e st)] in
      case transport e contact (find_message e st) of
        Inl err \<Rightarrow>
          (case submit_removeContact e contact log1 of
             Inl thrown \<Rightarrow> (Inl thrown, log1)
           | Inr log2 \<Rightarrow> (Inr (removeFromShortList st (nodeID contact), True), log2))
      | Inr msg \<Rightarrow> handleFindResult e st log1 msg contact)"

text \<open>
  \<^verbatim>\<open>Router.prototype._handleValueReturned\<close>. With a contact to store at, the message is
  built first: \<^verbatim>\<open>item.key\<close> of an undefined \<^verbatim>\<open>state.item\<close> throws a TypeError, and
  \<^verbatim>\<open>new Item(...)\<close> may throw; in both cases nothing is sent and the callback is not
  called.
\<close>

definition store_message :: "env \<Rightarrow> Item \<Rightarrow> message" where
  "store_message e built =
     \<lparr>msg_method = STORE, msg_key = None, msg_item = Some built, msg_contact = self e\<rparr>"

definition handleValueReturned :: "env \<Rightarrow> state \<Rightarrow> effect list \<Rightarrow> outcome" where
  "handleValueReturned e st log =
     (case sort_key (\<lambda>contact. getDistance (nodeID contact) (nodeID (self e))) (contactsWithoutValue st) of
        [] \<Rightarrow> (Inr (VALUE, Found (value' st)), log)
      | closestWithoutValue # others \<Rightarrow>
          (case item st of
             None \<Rightarrow> (Inl TypeError, log)
           | Some it \<Rightarrow>
               (case newItem e it of
                  Inl thrown \<Rightarrow> (Inl thrown, log)
                | Inr built \<Rightarrow>
                    (Inr (VALUE, Found (value' st)),
                     log @ [Send closestWithoutValue (store_message e built)]))))"

text \<open>
  \<^verbatim>\<open>Router.prototype._handleQueryResults\<close>: the lookup returns, or goes on with the next
  batch. \<^verbatim>\<open>closestNode === previousClosestNode\<close> compares object identity, and is false
  between \<^verbatim>\<open>undefined\<close> and \<^verbatim>\<open>null\<close>.
\<close>

datatype step = Return outcome | Continue "Contact list"

definition closestNodeUnchanged :: "state \<Rightarrow> bool" where
  "closestNodeUnchanged st =
     (case closestNode st of
        None \<Rightarrow> False
      | Some c \<Rightarrow> (case previousClosestNode st of None \<Rightarrow> False | Some p \<Rightarrow> oid p = oid c))"

definition handleQueryResults :: "env \<Rightarrow> state \<Rightarrow> effect list \<Rightarrow> step" where
  "handleQueryResults e st log =
     (if foundValue st then Return (handleValueReturned e st log)
      else if closestNodeUnchanged st \<or> length (shortlist st) \<ge> K (cfg e) then
        Return (Inr (NODE, Nodes (shortlist st)), log)
      else
        (let remainingContacts = filter (\<lambda>c. map_of (contacted st) (nodeID c) = None) (shortlist st) in
         if length remainingContacts = 0 then Return (Inr (NODE, Nodes (shortlist st)), log)
         else Continue (take (ALPHA (cfg e)) remainingContacts)))"

text \<open>
  \<^verbatim>\<open>Router.prototype._iterativeFind\<close>: query every contact of the batch and count the
  queries whose callback received an error; then fail, or handle the results. The
  recursion through \<^verbatim>\<open>_handleQueryResults\<close> is bounded by fuel: \<open>None\<close> is a lookup that
  has not returned within the given number of further batches.
\<close>

fun queryEach ::
  "env \<Rightarrow> state \<Rightarrow> effect list \<Rightarrow> nat \<Rightarrow> Contact list \<Rightarrow> (error + state \<times> nat) \<times> effect list" where
  "queryEach e st log failures [] = (Inr (st, failures), log)"
| "queryEach e st log failures (contact # rest) =
     (case queryContact e st log contact of
        (Inl thrown, log1) \<Rightarrow> (Inl thrown, log1)
      | (Inr (st1, failed), log1) \<Rightarrow>
          queryEach e st1 log1 (if failed then failures + 1 else failures) rest)"

fun iterativeFind ::
  "nat \<Rightarrow> env \<Rightarrow> state \<Rightarrow> effect list \<Rightarrow> Contact list \<Rightarrow> outcome option" where
  "iterativeFind fuel e st log batch =
     (case queryEach e st log 0 batch of
        (Inl thrown, log1) \<Rightarrow> Some (Inl thrown, log1)
      | (Inr (st1, failures), log1) \<Rightarrow>
          if failures = length batch then Some (Inl LookupFailed, log1)
          else
            (case handleQueryResults e st1 log1 of
               Return out \<Rightarrow> Some out
             | Continue batch' \<Rightarrow>
                 (case fuel of
                    0 \<Rightarrow> None
                  | Suc fuel' \<Rightarrow> iterativeFind fuel' e st1 log1 batch')))"

text \<open>
  \<^verbatim>\<open>Router.prototype._createLookupState\<close> and \<^verbatim>\<open>Router.prototype.lookup\<close>.
\<close>

definition createLookupState ::
  "env \<Rightarrow> RoutingTable \<Rightarrow> lookup_type \<Rightarrow> string \<Rightarrow> error + state" where
  "createLookupState e rt t k =
     (case getNearestContacts e rt k (ALPHA (cfg e)) (nodeID (self e)) of
        Inl err \<Rightarrow> Inl err
      | Inr (nearest, rt') \<Rightarrow>
          Inr \<lparr>type = t, key = k, hashedKey = createID e k, limit = ALPHA (cfg e),
               previousClosestNode = None, contacted = [], foundValue = False, value' = None,
               item = None, contactsWithoutValue = [], shortlist = nearest,
               closestNode = (case nearest of [] \<Rightarrow> None | first # others \<Rightarrow> Some first),
               closestNodeDistance = None\<rparr>)"

definition lookup :: "nat \<Rightarrow> env \<Rightarrow> RoutingTable \<Rightarrow> lookup_type \<Rightarrow> string \<Rightarrow> outcome option" where
  "lookup fuel e rt t k =
     (case createLookupState e rt t k of
        Inl err \<Rightarrow> Some (Inl err, [])
      | Inr st \<Rightarrow>
          (case closestNode st of
             None \<Rightarrow> Some (Inl NotConnected, [])
           | Some closest \<Rightarrow>
               iterativeFind fuel e
                 (st\<lparr>closestNodeDistance := Some (getDistance (hashedKey st) (nodeID closest))\<rparr>)
                 [] (shortlist st)))"

section \<open>Concrete states\<close>

text \<open>
  A node with identifier 0 among 3-bit identifiers (K = 2, B = 3, ALPHA = 3), three
  contacts, and a routing table holding the bucket of index 0 with two contacts and an
  empty bucket of index 1.
\<close>

definition ex_cfg :: constants where
  "ex_cfg = \<lparr>K = 2, B = 3, ALPHA = 3\<rparr>"

definition ex_store :: Store where
  "ex_store = \<lparr>routing_table_record = None, bucket_records = Map.empty, buckets_record = None,
               contact_records = Map.empty, miss_is_error = True\<rparr>"

definition ex_a :: Contact where
  "ex_a = \<lparr>oid = 1, nodeID = 4, address = ''a'', lastSeen = 10\<rparr>"

definition ex_b :: Contact where
  "ex_b = \<lparr>oid = 2, nodeID = 5, address = ''b'', lastSeen = 20\<rparr>"

definition ex_c :: Contact where
  "ex_c = \<lparr>oid = 3, nodeID = 6, address = ''c'', lastSeen = 30\<rparr>"

definition ex_contact_store :: Store where
  "ex_contact_store = ex_store\<lparr>contact_records := [4 \<mapsto> ex_a, 5 \<mapsto> ex_b]\<rparr>"

definition ex_bucket :: Bucket where
  "ex_bucket = \<lparr>index = 0, contacts = [4, 5], cache = [(4, ex_a), (5, ex_b)],
                bucket_storage = ex_contact_store\<rparr>"

definition ex_empty_bucket :: Bucket where
  "ex_empty_bucket = \<lparr>index = 1, contacts = [], cache = [], bucket_storage = ex_store\<rparr>"

definition ex_table :: RoutingTable where
  "ex_table = \<lparr>buckets = Some [(0, ex_bucket), (1, ex_empty_bucket)], storage = ex_store\<rparr>"

text \<open>
  The environment of that node: \<^verbatim>\<open>getBucketIndex\<close> is the position of the most
  significant differing bit counted from the top (B for equal identifiers), the hash of a
  key is its length, every request times out, \<^verbatim>\<open>_createContact\<close> returns the contact it
  is given and the Item constructor accepts every item. In \<open>ex_env_invalid\<close> every contact
  answers with an item that the validator rejects; in \<open>ex_env_item_rejected\<close> the Item
  constructor throws. \<open>ex_state\<close> is a NODE lookup state
  for the key \<^verbatim>\<open>abc\<close> with three contacts in its shortlist.
\<close>

definition ex_self :: Contact where
  "ex_self = \<lparr>oid = 0, nodeID = 0, address = ''self'', lastSeen = 0\<rparr>"

definition ex_getBucketIndex :: "id \<Rightarrow> id \<Rightarrow> nat" where
  "ex_getBucketIndex a b =
     (if a XOR b = 0 then 3 else if a XOR b < 2 then 2 else if a XOR b < 4 then 1 else 0)"

definition ex_env :: env where
  "ex_env = \<lparr>cfg = ex_cfg, self = ex_self, createID = (\<lambda>k. length k),
             getBucketIndex = ex_getBucketIndex, validator = None,
             transport = (\<lambda>contact m. Inl RpcTimeout), clock = 100,
             createContact = (\<lambda>contactInfo. contactInfo), newItem = (\<lambda>it. Inr it)\<rparr>"

definition ex_item :: Item where
  "ex_item = \<lparr>item_key = ''abc'', item_value = ''v'', publisher = 5, timestamp = 50\<rparr>"

definition ex_env_invalid :: env where
  "ex_env_invalid = ex_env\<lparr>validator := Some (\<lambda>k v. False),
       transport := (\<lambda>contact m. Inr \<lparr>result_nodes = [], result_item = Some ex_item\<rparr>)\<rparr>"

definition ex_env_item_rejected :: env where
  "ex_env_item_rejected = ex_env\<lparr>newItem := (\<lambda>it. Inl AssertionError)\<rparr>"

definition ex_state :: state where
  "ex_state = \<lparr>type = NODE, key = ''abc'', hashedKey = 3, limit = 3, previousClosestNode = None,
               contacted = [], foundValue = False, value' = None, item = None,
               contactsWithoutValue = [], shortlist = [ex_a, ex_b, ex_c],
               closestNode = Some ex_a, closestNodeDistance = Some 7\<rparr>"

definition ex_state_found :: state where
  "ex_state_found = ex_state\<lparr>type := VALUE, foundValue := True, value' := Some ''v'',
       item := Some ex_item, contactsWithoutValue := [ex_c, ex_a]\<rparr>"

definition ex_empty_table :: RoutingTable where
  "ex_empty_table = \<lparr>buckets = Some [], storage = ex_store\<rparr>"

definition ex_state_value :: state where
  "ex_state_value = ex_state\<lparr>type := VALUE, shortlist := [ex_a]\<rparr>"

definition ex_router :: Router where
  "ex_router = \<lparr>routingTable = ex_table, emitted = []\<rparr>"

section \<open>Properties of Bucket\<close>

text \<open>
  C10. A bucket whose order holds exactly K node ids refuses every contact with the full
  error, a contact whose node id is already in the order included, and leaves the order
  and the cache as they were. On a bucket that is not full, a contact whose node id is in
  the order is refused as a duplicate: the order is unchanged, and the cache entry of
  that node id has been overwritten with the contact.
\<close>

theorem addContact_full_and_duplicate:
  "(getSize b = K c \<longrightarrow> addContact c b contact = (Inl BucketFull, b))
   \<and> (getSize b \<noteq> K c \<and> hasContact b (nodeID contact) \<longrightarrow>
        addContact c b contact
          = (Inl AlreadyInBucket, b\<lparr>cache := AList.update (nodeID contact) contact (cache b)\<rparr>))
   \<and> (fst (addContact c b contact) = Inl AlreadyInBucket \<longrightarrow>
        contacts (snd (addContact c b contact)) = contacts b
        \<and> map_of (cache (snd (addContact c b contact))) (nodeID contact) = Some contact)"
  by (auto simp: addContact_def hasContact_def Let_def update_Some_unfold
           split: sum.splits if_splits)

theorem addContact_full_and_duplicate_witness:
  "getSize ex_bucket = K ex_cfg
   \<and> addContact ex_cfg ex_bucket (ex_a\<lparr>lastSeen := 40\<rparr>) = (Inl BucketFull, ex_bucket)
   \<and> getSize ex_bucket \<noteq> K (ex_cfg\<lparr>K := 3\<rparr>)
   \<and> hasContact ex_bucket (nodeID (ex_a\<lparr>lastSeen := 40\<rparr>))
   \<and> addContact (ex_cfg\<lparr>K := 3\<rparr>) ex_bucket (ex_a\<lparr>lastSeen := 40\<rparr>)
       = (Inl AlreadyInBucket, ex_bucket\<lparr>cache := [(4, ex_a\<lparr>lastSeen := 40\<rparr>), (5, ex_b)]\<rparr>)
   \<and> contacts (snd (addContact (ex_cfg\<lparr>K := 3\<rparr>) ex_bucket (ex_a\<lparr>lastSeen := 40\<rparr>))) = contacts ex_bucket"
  using addContact_full_and_duplicate [of ex_bucket ex_cfg "ex_a\<lparr>lastSeen := 40\<rparr>"]
        addContact_full_and_duplicate [of ex_bucket "ex_cfg\<lparr>K := 3\<rparr>" "ex_a\<lparr>lastSeen := 40\<rparr>"]
  by (simp add: getSize_def hasContact_def ex_bucket_def ex_cfg_def ex_a_def)

text \<open>
  Where \<^verbatim>\<open>addContact\<close> inserts. The binary search returns the end of the order when
  every cached \<^verbatim>\<open>lastSeen\<close> of the order is strictly below the contact's, so a contact
  strictly fresher than all others is appended at the tail.
\<close>

lemma binaryIndexBy_all_less:
  assumes "\<forall>j < high. \<exists>t. iteratee (array ! j) = Some t \<and> t < v" and "low \<le> high"
  shows "binaryIndexBy iteratee array v low high = Inr high"
  using assms
proof (induction iteratee array v low high rule: binaryIndexBy.induct)
  case (1 iteratee array v low high)
  show ?case
  proof (cases "low < high")
    case True
    then have mid: "(low + high) div 2 < high" by simp
    with "1.prems"(1) obtain t where t: "iteratee (array ! ((low + high) div 2)) = Some t" "t < v"
      by blast
    from mid have le: "(low + high) div 2 + 1 \<le> high" by simp
    from "1.IH"(1) [OF True t(1) t(2) "1.prems"(1) le] True t show ?thesis
      by (subst binaryIndexBy.simps) simp
  next
    case False
    with "1.prems"(2) have "low = high" by simp
    then show ?thesis by (subst binaryIndexBy.simps) simp
  qed
qed

lemma addContact_fresh_at_tail:
  assumes "getSize b \<noteq> K c" and "nodeID contact \<notin> set (contacts b)"
    and "\<forall>n \<in> set (contacts b). \<exists>old. map_of (cache b) n = Some old \<and> lastSeen old < lastSeen contact"
  shows "addContact c b contact
           = (Inr contact,
              b\<lparr>cache := AList.update (nodeID contact) contact (cache b),
                contacts := contacts b @ [nodeID contact]\<rparr>)"
proof -
  let ?b1 = "b\<lparr>cache := AList.update (nodeID contact) contact (cache b)\<rparr>"
  have own: "cache_lastSeen ?b1 (nodeID contact) = Some (lastSeen contact)"
    by (simp add: cache_lastSeen_def update_Some_unfold)
  have others: "\<forall>j < length (contacts b). \<exists>t. cache_lastSeen ?b1 (contacts b ! j) = Some t \<and> t < lastSeen contact"
  proof (intro allI impI)
    fix j assume j: "j < length (contacts b)"
    then have mem: "contacts b ! j \<in> set (contacts b)" by simp
    with assms(2) have ne: "contacts b ! j \<noteq> nodeID contact" by auto
    from assms(3) mem obtain old where
      "map_of (cache b) (contacts b ! j) = Some old" "lastSeen old < lastSeen contact" by blast
    with ne show "\<exists>t. cache_lastSeen ?b1 (contacts b ! j) = Some t \<and> t < lastSeen contact"
      by (simp add: cache_lastSeen_def update_conv')
  qed
  have "sortedIndex (contacts b) (nodeID contact) (cache_lastSeen ?b1) = Inr (length (contacts b))"
    using binaryIndexBy_all_less [OF others, of 0] own by (simp add: sortedIndex_def)
  then show ?thesis
    using assms(1,2) by (simp add: addContact_def Let_def splice_insert_def)
qed

text \<open>
  The search is for the lowest position: a contact whose \<^verbatim>\<open>lastSeen\<close> equals that of a
  contact in the order is inserted before it, not at the tail.
\<close>

lemma addContact_tie_lands_before:
  "addContact ex_cfg \<lparr>index = 0, contacts = [4], cache = [(4, ex_a)], bucket_storage = ex_store\<rparr>
     (ex_b\<lparr>lastSeen := 10\<rparr>)
   = (Inr (ex_b\<lparr>lastSeen := 10\<rparr>),
      \<lparr>index = 0, contacts = [5, 4], cache = [(4, ex_a), (5, ex_b\<lparr>lastSeen := 10\<rparr>)],
       bucket_storage = ex_store\<rparr>)"
  by (simp add: addContact_def getSize_def sortedIndex_def cache_lastSeen_def splice_insert_def
        binaryIndexBy.simps ex_cfg_def ex_a_def ex_b_def Let_def)

section \<open>Properties of RoutingTable\<close>

text \<open>
  \<^verbatim>\<open>hasBucket\<close> succeeds exactly when the loaded table has a bucket under the index: the
  test \<^verbatim>\<open>self._buckets[index].length === 0\<close> compares \<^verbatim>\<open>undefined\<close> with 0 and never holds.
\<close>

lemma hasBucket_iff:
  "fst (hasBucket c rt i) = Inr () \<longleftrightarrow> has_index (buckets (load c rt)) i"
  by (simp add: hasBucket_def has_index_def Bucket_length_def Let_def split: option.splits)

text \<open>
  C9. \<^verbatim>\<open>has_bucket(i)\<close> is claimed to fail for an existing bucket whose contact list has
  size zero. In the table \<open>ex_table\<close> the bucket of index 1 exists and is empty, and
  \<^verbatim>\<open>hasBucket\<close> succeeds for it.
\<close>

theorem hasBucket_empty_bucket_succeeds:
  "map_of (the (buckets ex_table)) 1 = Some ex_empty_bucket
   \<and> getSize ex_empty_bucket = 0
   \<and> fst (hasBucket ex_cfg ex_table 1) = Inr ()"
  by (simp add: hasBucket_def load_def ex_table_def Bucket_length_def getSize_def ex_empty_bucket_def)

text \<open>
  A routing table constructed over a storage and loaded from it holds no bucket,
  whatever snapshot the storage has: the first entry of a non-empty snapshot is assigned
  into the undefined \<^verbatim>\<open>_buckets\<close>, and the exception empties the table.
\<close>

lemma load_entries_undefined:
  "load_entries c None (entry # rest) = Inl TypeError"
  by (cases entry) simp

lemma load_entries_None:
  "load_entries c None snapshot = Inr bs \<Longrightarrow> bs = None"
  by (cases snapshot) (auto simp: load_entries_undefined)

lemma load_fresh_no_buckets:
  "buckets (load c (RoutingTable_new s)) = None \<or> buckets (load c (RoutingTable_new s)) = Some []"
  by (auto simp: load_def RoutingTable_new_def split: sum.splits option.splits
           dest: load_entries_None)

lemma reload_has_no_bucket:
  "fst (getIndexes c (RoutingTable_new (storage (RoutingTable_save rt)))) = []"
  using load_fresh_no_buckets [of c "storage (RoutingTable_save rt)"]
  by (auto simp: getIndexes_def Let_def)

text \<open>
  C2. After \<^verbatim>\<open>save\<close>, a routing table constructed over the same storage and loaded from
  it is claimed to have the same bucket indexes and the same order in every bucket.
  \<open>ex_table\<close> has the indexes 0 and 1 and the order 4, 5 in bucket 0; the table reloaded
  from its saved snapshot has no index and no bucket 0.
\<close>

theorem save_then_reload_loses_buckets:
  "fst (getIndexes ex_cfg ex_table) = [0, 1]
   \<and> bucket_order ex_cfg ex_table 0 = Some [4, 5]
   \<and> fst (getIndexes ex_cfg (RoutingTable_new (storage (RoutingTable_save ex_table)))) = []
   \<and> bucket_order ex_cfg (RoutingTable_new (storage (RoutingTable_save ex_table))) 0 = None"
  by (simp add: getIndexes_def bucket_order_def load_def RoutingTable_new_def RoutingTable_save_def
        ex_table_def ex_bucket_def ex_empty_bucket_def)

section \<open>Properties of the iterative lookup\<close>

text \<open>
  When \<^verbatim>\<open>_handleQueryResults\<close> returns at the completion of a batch in which not every
  query failed, the lookup returns that outcome, whatever fuel is left.
\<close>

lemma iterativeFind_returns:
  assumes "queryEach e st log 0 batch = (Inr (st1, failures), log1)"
    and "failures \<noteq> length batch"
    and "handleQueryResults e st1 log1 = Return out"
  shows "iterativeFind fuel e st log batch = Some out"
  using assms by simp

text \<open>
  C3 as stated: at batch completion without a value, when the closest node is unchanged
  or the shortlist has at least K entries, the lookup returns NODE with the shortlist
  truncated to at most K contacts. With K = 2 and three contacts in the shortlist, the
  lookup returns all three.
\<close>

theorem handleQueryResults_truncation_counterexample:
  "\<not> foundValue ex_state
   \<and> K (cfg ex_env) \<le> length (shortlist ex_state)
   \<and> handleQueryResults ex_env ex_state [] = Return (Inr (NODE, Nodes [ex_a, ex_b, ex_c]), [])
   \<and> K (cfg ex_env) < length [ex_a, ex_b, ex_c]"
  by (simp add: handleQueryResults_def ex_state_def ex_env_def ex_cfg_def)

text \<open>
  C3, amended. For every lookup state at batch completion in which no value was found
  and either the closest node equals the previous closest node or the shortlist has at
  least K entries, the lookup returns successfully with type NODE and the whole
  shortlist, in shortlist order: nothing truncates it.
\<close>

theorem handleQueryResults_returns_whole_shortlist:
  assumes "\<not> foundValue st"
    and "closestNodeUnchanged st \<or> K (cfg e) \<le> length (shortlist st)"
  shows "handleQueryResults e st log = Return (Inr (NODE, Nodes (shortlist st)), log)"
  using assms by (simp add: handleQueryResults_def)

theorem handleQueryResults_returns_whole_shortlist_witness:
  "\<not> foundValue ex_state
   \<and> K (cfg ex_env) \<le> length (shortlist ex_state)
   \<and> handleQueryResults ex_env ex_state [] = Return (Inr (NODE, Nodes (shortlist ex_state)), [])"
proof -
  have h1: "\<not> foundValue ex_state" by (simp add: ex_state_def)
  have h2: "K (cfg ex_env) \<le> length (shortlist ex_state)"
    by (simp add: ex_state_def ex_env_def ex_cfg_def)
  from handleQueryResults_returns_whole_shortlist [OF h1 disjI2, OF h2] h1 h2
  show ?thesis by simp
qed

text \<open>
  A returned item that passes validation is latched: \<^verbatim>\<open>foundValue\<close>, \<^verbatim>\<open>value\<close> and
  \<^verbatim>\<open>item\<close> are set together, and the query is no failure.
\<close>

lemma validateFindResult_latches:
  "validateKeyValuePair e (key st) (item_value it) \<Longrightarrow>
   validateFindResult e st log it contact
     = (Inr (st\<lparr>foundValue := True, value' := Some (item_value it), item := Some it\<rparr>, False), log)"
  by (simp add: validateFindResult_def)

text \<open>
  The head of a list sorted by a key is an element of the list with the least key.
\<close>

lemma sort_key_head_least:
  assumes "sort_key f xs = y # ys"
  shows "y \<in> set xs \<and> (\<forall>x \<in> set xs. f y \<le> f x)"
proof -
  have s: "sorted (map f (y # ys))" using assms sorted_sort_key [of f xs] by simp
  have m: "set (y # ys) = set xs" using assms set_sort [of f xs] by simp
  show ?thesis using s m by auto
qed

text \<open>
  C5 as stated promises the STORE and the VALUE result for every lookup that has latched
  a validated item and has a contact without the value. The STORE message is built
  with \<^verbatim>\<open>new Item(item.key, item.value, item.publisher, item.timestamp)\<close> before anything
  is sent; where that constructor throws, as in \<open>ex_env_item_rejected\<close>, the lookup
  sends no message and does not return the value.
\<close>

theorem value_returned_item_rejected_counterexample:
  "foundValue ex_state_found
   \<and> item ex_state_found = Some ex_item
   \<and> contactsWithoutValue ex_state_found = [ex_c, ex_a]
   \<and> newItem ex_env_item_rejected ex_item = Inl AssertionError
   \<and> handleQueryResults ex_env_item_rejected ex_state_found [] = Return (Inl AssertionError, [])"
  by (simp add: handleQueryResults_def handleValueReturned_def ex_env_item_rejected_def
        ex_state_found_def ex_state_def ex_env_def ex_self_def ex_a_def ex_c_def getDistance_def)

text \<open>
  C5, amended. For every lookup state at batch completion that has latched a validated
  item which the Item constructor accepts, and whose \<^verbatim>\<open>contactsWithoutValue\<close> is not
  empty, the lookup sends exactly one message more: its method is STORE, it carries the
  item built by the constructor and the local contact, and it is addressed to a contact
  of \<^verbatim>\<open>contactsWithoutValue\<close> whose XOR distance to the local node's identifier (not to
  the key) is least. The lookup returns type VALUE with the latched value. The transport
  is not asked about the STORE, so its outcome cannot change the result.
\<close>

theorem value_returned_stores_at_contact_nearest_to_self:
  assumes "foundValue st" and "item st = Some it" and "newItem e it = Inr built"
    and "contactsWithoutValue st \<noteq> []"
  shows "\<exists>target. handleQueryResults e st log
            = Return (Inr (VALUE, Found (value' st)),
                      log @ [Send target \<lparr>msg_method = STORE, msg_key = None,
                                          msg_item = Some built, msg_contact = self e\<rparr>])
          \<and> target \<in> set (contactsWithoutValue st)
          \<and> (\<forall>contact \<in> set (contactsWithoutValue st).
                getDistance (nodeID target) (nodeID (self e))
                  \<le> getDistance (nodeID contact) (nodeID (self e)))"
proof -
  let ?f = "\<lambda>contact. getDistance (nodeID contact) (nodeID (self e))"
  obtain y ys where srt: "sort_key ?f (contactsWithoutValue st) = y # ys"
    using assms(4) by (cases "sort_key ?f (contactsWithoutValue st)") (auto dest: arg_cong [where f = length])
  from sort_key_head_least [OF srt]
  have least: "y \<in> set (contactsWithoutValue st)"
    "\<forall>x \<in> set (contactsWithoutValue st). ?f y \<le> ?f x" by auto
  have "handleQueryResults e st log
          = Return (Inr (VALUE, Found (value' st)),
                    log @ [Send y \<lparr>msg_method = STORE, msg_key = None,
                                   msg_item = Some built, msg_contact = self e\<rparr>])"
    using assms(1,2,3) srt
    by (simp add: handleQueryResults_def handleValueReturned_def store_message_def)
  with least show ?thesis by blast
qed

theorem value_returned_stores_at_contact_nearest_to_self_witness:
  "foundValue ex_state_found \<and> item ex_state_found = Some ex_item
   \<and> newItem ex_env ex_item = Inr ex_item
   \<and> contactsWithoutValue ex_state_found = [ex_c, ex_a]
   \<and> handleQueryResults ex_env ex_state_found []
       = Return (Inr (VALUE, Found (Some ''v'')),
                 [Send ex_a \<lparr>msg_method = STORE, msg_key = None,
                             msg_item = Some ex_item, msg_contact = ex_self\<rparr>])"
proof -
  have h1: "foundValue ex_state_found" by (simp add: ex_state_found_def)
  have h2: "item ex_state_found = Some ex_item" by (simp add: ex_state_found_def)
  have h3: "newItem ex_env ex_item = Inr ex_item" by (simp add: ex_env_def)
  have h4: "contactsWithoutValue ex_state_found \<noteq> []" by (simp add: ex_state_found_def)
  from value_returned_stores_at_contact_nearest_to_self [OF h1 h2 h3 h4, of "[]"]
  obtain target where
    t: "handleQueryResults ex_env ex_state_found []
          = Return (Inr (VALUE, Found (value' ex_state_found)),
                    [] @ [Send target \<lparr>msg_method = STORE, msg_key = None,
                                       msg_item = Some ex_item, msg_contact = self ex_env\<rparr>])"
    and m: "target \<in> set (contactsWithoutValue ex_state_found)"
    and l: "\<forall>contact \<in> set (contactsWithoutValue ex_state_found).
              getDistance (nodeID target) (nodeID (self ex_env))
                \<le> getDistance (nodeID contact) (nodeID (self ex_env))"
    by blast
  from m l have "target = ex_a"
    by (auto simp: ex_state_found_def ex_state_def ex_env_def ex_self_def ex_a_def ex_c_def getDistance_def)
  moreover have "self ex_env = ex_self" by (simp add: ex_env_def)
  ultimately show ?thesis using t h1 h2 h3 by (simp add: ex_state_found_def)
qed

text \<open>
  A query that ends in a transport error removes the contact from the shortlist, submits
  it to \<^verbatim>\<open>removeContact\<close> and counts as a failure; the message of the lookup does not
  change with the shortlist.
\<close>

lemma find_message_removeFromShortList:
  "find_message e (removeFromShortList st n) = find_message e st"
  by (simp add: find_message_def removeFromShortList_def)

lemma queryContact_transport_error:
  assumes "transport e (createContact e info) (find_message e st) = Inl err"
    and "getBucketIndex e (nodeID (self e)) (nodeID (createContact e info)) < B (cfg e)"
  shows "queryContact e st log info
           = (Inr (removeFromShortList st (nodeID (createContact e info)), True),
              log @ [Send (createContact e info) (find_message e st),
                     RemoveContact (createContact e info)])"
  using assms by (simp add: queryContact_def submit_removeContact_def Let_def)

lemma queryEach_all_transport_errors:
  assumes "\<forall>info \<in> set batch. isl (transport e (createContact e info) (find_message e st))"
    and "\<forall>info \<in> set batch.
           getBucketIndex e (nodeID (self e)) (nodeID (createContact e info)) < B (cfg e)"
  shows "\<exists>st' log'. queryEach e st log n batch = (Inr (st', n + length batch), log')"
  using assms
proof (induction batch arbitrary: st log n)
  case Nil
  then show ?case by simp
next
  case (Cons info rest)
  let ?contact = "createContact e info"
  from Cons.prems(1) obtain err where err: "transport e ?contact (find_message e st) = Inl err"
    by (cases "transport e ?contact (find_message e st)") auto
  from Cons.prems(2) have idx: "getBucketIndex e (nodeID (self e)) (nodeID ?contact) < B (cfg e)"
    by simp
  let ?st1 = "removeFromShortList st (nodeID ?contact)"
  let ?log1 = "log @ [Send ?contact (find_message e st), RemoveContact ?contact]"
  have rest1: "\<forall>c \<in> set rest. isl (transport e (createContact e c) (find_message e ?st1))"
    using Cons.prems(1) by (simp add: find_message_removeFromShortList)
  have rest2: "\<forall>c \<in> set rest.
                 getBucketIndex e (nodeID (self e)) (nodeID (createContact e c)) < B (cfg e)"
    using Cons.prems(2) by simp
  from Cons.IH [OF rest1 rest2, of ?log1 "n + 1"]
  obtain st' log' where "queryEach e ?st1 ?log1 (n + 1) rest = (Inr (st', n + 1 + length rest), log')"
    by blast
  then show ?case
    by (simp add: queryContact_transport_error [OF err idx])
qed

text \<open>
  C6 as stated counts a validation failure among the failed queries. A VALUE lookup
  whose only queried contact returns an item that the validator rejects does not fail:
  \<^verbatim>\<open>rejectContact\<close> calls \<^verbatim>\<open>done()\<close> without an error, no failure is counted, and the
  lookup returns type NODE with the emptied shortlist.
\<close>

theorem iterativeFind_validation_failure_counterexample:
  "transport ex_env_invalid ex_a (find_message ex_env_invalid ex_state_value)
     = Inr \<lparr>result_nodes = [], result_item = Some ex_item\<rparr>
   \<and> \<not> validateKeyValuePair ex_env_invalid (key ex_state_value) (item_value ex_item)
   \<and> iterativeFind 0 ex_env_invalid ex_state_value [] [ex_a]
       = Some (Inr (NODE, Nodes []),
               [Send ex_a (find_message ex_env_invalid ex_state_value),
                UpdateContact (ex_a\<lparr>lastSeen := 100\<rparr>),
                RemoveContact (ex_a\<lparr>lastSeen := 100\<rparr>)])"
  by (simp add: ex_env_invalid_def ex_env_def ex_state_value_def ex_state_def ex_a_def ex_self_def
        ex_cfg_def ex_getBucketIndex_def ex_item_def validateKeyValuePair_def queryContact_def
        handleFindResult_def validateFindResult_def submit_updateContact_def submit_removeContact_def
        removeFromShortList_def handleQueryResults_def closestNodeUnchanged_def getDistance_def
        compareKeys_def find_message_def Let_def)

text \<open>
  C6, amended. For every lookup batch in which every dispatched query ends in a
  transport error (an error response or a timeout), the queried contacts (as
  \<^verbatim>\<open>_createContact\<close> builds them from the batch) passing the bucket-index assertion of \<^verbatim>\<open>removeContact\<close>, the lookup fails with the LookupFailed
  error: it returns no result and starts no further batch, whatever fuel is left.
\<close>

theorem iterativeFind_fails_when_every_query_has_transport_error:
  assumes "\<forall>info \<in> set batch. isl (transport e (createContact e info) (find_message e st))"
    and "\<forall>info \<in> set batch.
           getBucketIndex e (nodeID (self e)) (nodeID (createContact e info)) < B (cfg e)"
  shows "\<exists>log'. iterativeFind fuel e st log batch = Some (Inl LookupFailed, log')"
proof -
  from queryEach_all_transport_errors [OF assms, of log 0]
  obtain st' log' where "queryEach e st log 0 batch = (Inr (st', length batch), log')"
    by auto
  then have "iterativeFind fuel e st log batch = Some (Inl LookupFailed, log')"
    by simp
  then show ?thesis ..
qed

theorem iterativeFind_fails_when_every_query_has_transport_error_witness:
  "createContact ex_env ex_a = ex_a \<and> createContact ex_env ex_b = ex_b
   \<and> isl (transport ex_env ex_a (find_message ex_env ex_state))
   \<and> isl (transport ex_env ex_b (find_message ex_env ex_state))
   \<and> getBucketIndex ex_env (nodeID (self ex_env)) (nodeID ex_a) < B (cfg ex_env)
   \<and> getBucketIndex ex_env (nodeID (self ex_env)) (nodeID ex_b) < B (cfg ex_env)
   \<and> iterativeFind 0 ex_env ex_state [] [ex_a, ex_b]
       = Some (Inl LookupFailed,
               [Send ex_a (find_message ex_env ex_state), RemoveContact ex_a,
                Send ex_b (find_message ex_env ex_state), RemoveContact ex_b])"
proof -
  have cc: "createContact ex_env = (\<lambda>contactInfo. contactInfo)" by (simp add: ex_env_def)
  have h1: "\<forall>info \<in> set [ex_a, ex_b].
              isl (transport ex_env (createContact ex_env info) (find_message ex_env ex_state))"
    by (simp add: ex_env_def)
  have h2: "\<forall>info \<in> set [ex_a, ex_b].
              getBucketIndex ex_env (nodeID (self ex_env)) (nodeID (createContact ex_env info))
                < B (cfg ex_env)"
    by (simp add: ex_env_def ex_getBucketIndex_def ex_self_def ex_a_def ex_b_def ex_cfg_def)
  from iterativeFind_fails_when_every_query_has_transport_error [OF h1 h2, of 0 "[]"]
  obtain log' where r: "iterativeFind 0 ex_env ex_state [] [ex_a, ex_b] = Some (Inl LookupFailed, log')"
    by blast
  have t: "transport ex_env ex_a (find_message ex_env ex_state) = Inl RpcTimeout"
    "transport ex_env ex_b (find_message ex_env (removeFromShortList ex_state (nodeID ex_a))) = Inl RpcTimeout"
    by (simp_all add: ex_env_def)
  have "\<exists>st'. queryEach ex_env ex_state [] 0 [ex_a, ex_b]
          = (Inr (st', 2),
             [Send ex_a (find_message ex_env ex_state), RemoveContact ex_a,
              Send ex_b (find_message ex_env ex_state), RemoveContact ex_b])"
    using h2 t by (simp add: cc queryContact_transport_error find_message_removeFromShortList)
  then have "iterativeFind 0 ex_env ex_state [] [ex_a, ex_b]
          = Some (Inl LookupFailed,
               [Send ex_a (find_message ex_env ex_state), RemoveContact ex_a,
                Send ex_b (find_message ex_env ex_state), RemoveContact ex_b])"
    by auto
  with r h1 h2 show ?thesis by (simp add: cc)
qed

text \<open>
  C7. For every lookup invoked while \<^verbatim>\<open>getNearestContacts\<close> yields an empty initial
  shortlist, the lookup fails with the NotConnected error, and its effects are empty: no
  FIND_NODE or FIND_VALUE message is sent.
\<close>

theorem lookup_without_peers_is_not_connected:
  assumes "getNearestContacts e rt k (ALPHA (cfg e)) (nodeID (self e)) = Inr ([], rt')"
  shows "lookup fuel e rt t k = Some (Inl NotConnected, [])"
  using assms by (simp add: lookup_def createLookupState_def)

lemma createBucket_absent:
  "buckets (snd acc) = Some [] \<Longrightarrow> createBucket e k lim n acc i = Inr acc"
  by (cases acc) (simp add: createBucket_def hasBucket_def load_def)

theorem lookup_without_peers_is_not_connected_witness:
  "getNearestContacts ex_env ex_empty_table ''abc'' (ALPHA (cfg ex_env)) (nodeID (self ex_env))
     = Inr ([], ex_empty_table)
   \<and> lookup 0 ex_env ex_empty_table NODE ''abc'' = Some (Inl NotConnected, [])"
proof -
  have b: "buckets (snd ([], ex_empty_table)) = Some []" by (simp add: ex_empty_table_def)
  have h: "getNearestContacts ex_env ex_empty_table ''abc'' (ALPHA (cfg ex_env)) (nodeID (self ex_env))
             = Inr ([], ex_empty_table)"
    by (simp add: getNearestContacts_def ascending.simps descending.simps createBucket_absent [OF b] ex_env_def ex_cfg_def
          ex_getBucketIndex_def ex_self_def)
  from lookup_without_peers_is_not_connected [OF h, of 0 NODE] h show ?thesis by simp
qed

text \<open>
  \<^verbatim>\<open>_.indexOf\<close> and \<^verbatim>\<open>splice\<close> remove the first occurrence of a node id;
  \<^verbatim>\<open>Router.prototype.removeContact\<close> on a contact that its bucket holds removes it, saves
  the bucket and emits \<^verbatim>\<open>drop\<close> (its callback receives the error of the second
  invocation by \<^verbatim>\<open>Bucket.prototype.removeContact\<close>).
\<close>

lemma index_from_absent: "x \<notin> set xs \<Longrightarrow> index_from i xs x = -1"
  by (induction xs arbitrary: i) auto

lemma index_from_present: "x \<in> set xs \<Longrightarrow> i \<le> index_from i xs x"
proof (induction xs arbitrary: i)
  case Nil
  then show ?case by simp
next
  case (Cons y ys)
  show ?case
  proof (cases "y = x")
    case True
    then show ?thesis by simp
  next
    case False
    with Cons.prems have "x \<in> set ys" by simp
    from Cons.IH [OF this, of "i + 1"] False show ?thesis by simp
  qed
qed

lemma index_from_shift:
  "x \<in> set xs \<Longrightarrow> index_from (i + k) xs x = index_from i xs x + k"
proof (induction xs arbitrary: i)
  case Nil
  then show ?case by simp
next
  case (Cons y ys)
  show ?case
  proof (cases "y = x")
    case True
    then show ?thesis by simp
  next
    case False
    with Cons.prems have "x \<in> set ys" by simp
    from Cons.IH [OF this, of "i + 1"] False show ?thesis by (simp add: add.commute add.left_commute)
  qed
qed

lemma lodash_indexOf_nonneg: "(0 \<le> lodash_indexOf xs x) = (x \<in> set xs)"
proof (cases "x \<in> set xs")
  case True
  then show ?thesis using index_from_present [of x xs 0] by (simp add: lodash_indexOf_def)
next
  case False
  then show ?thesis by (simp add: lodash_indexOf_def index_from_absent)
qed

lemma splice_remove_indexOf:
  "x \<in> set xs \<Longrightarrow> splice_remove (nat (lodash_indexOf xs x)) xs = remove1 x xs"
proof (induction xs)
  case Nil
  then show ?case by simp
next
  case (Cons y ys)
  show ?case
  proof (cases "y = x")
    case True
    then show ?thesis by (simp add: lodash_indexOf_def splice_remove_def)
  next
    case False
    with Cons.prems have mem: "x \<in> set ys" by simp
    have ge: "0 \<le> index_from 0 ys x" using index_from_present [OF mem, of 0] .
    have "index_from 1 ys x = index_from 0 ys x + 1"
      using index_from_shift [OF mem, of 0 1] by simp
    then have "nat (index_from 1 ys x) = Suc (nat (index_from 0 ys x))"
      using ge by simp
    with Cons.IH [OF mem] False show ?thesis
      by (simp add: lodash_indexOf_def splice_remove_def)
  qed
qed

lemma Bucket_removeContact_present:
  "hasContact b (nodeID contact) \<Longrightarrow>
   Bucket_removeContact b contact
     = ((Inr contact, Some NotInBucket), b\<lparr>contacts := remove1 (nodeID contact) (contacts b)\<rparr>)"
  by (simp add: Bucket_removeContact_def hasContact_def lodash_indexOf_nonneg splice_remove_indexOf Let_def)

lemma Bucket_save_order:
  "contacts (Bucket_save b) = contacts b \<and> index (Bucket_save b) = index b
   \<and> bucket_records (bucket_storage (Bucket_save b)) (index b) = Some (contacts b)"
  by (simp add: Bucket_save_def Let_def)

lemma getBucket_present:
  "buckets rt = Some bs \<Longrightarrow> map_of bs i = Some b \<Longrightarrow> getBucket c rt i = (Inr b, rt)"
  by (simp add: getBucket_def load_def)

lemma Router_removeContact_present:
  assumes "getBucketIndex e (nodeID (self e)) (nodeID contact) < B (cfg e)"
    and "buckets (routingTable r) = Some bs"
    and "map_of bs (getBucketIndex e (nodeID (self e)) (nodeID contact)) = Some b"
    and "hasContact b (nodeID contact)"
  shows "Router_removeContact e r contact
           = (Inl NotInBucket,
              r\<lparr>routingTable := (routingTable r)\<lparr>buckets :=
                    Some (AList.update (getBucketIndex e (nodeID (self e)) (nodeID contact))
                           (Bucket_save (b\<lparr>contacts := remove1 (nodeID contact) (contacts b)\<rparr>)) bs)\<rparr>,
                 emitted := emitted r @ [Drop contact]\<rparr>)"
  using assms
  by (simp add: Router_removeContact_def getBucket_present Bucket_removeContact_present
        final_result_def store_bucket_def Let_def)

text \<open>
  C8 as stated promises the removal from the bucket, the saved bucket and the \<^verbatim>\<open>drop\<close>
  event for every contact whose query fails. The query of contact 6 times out and the
  contact is submitted to \<^verbatim>\<open>removeContact\<close>; its bucket (index 0) does not hold it, so
  the waterfall ends at \<^verbatim>\<open>Bucket.prototype.removeContact\<close> with the error: nothing is
  saved and no \<^verbatim>\<open>drop\<close> is emitted.
\<close>

theorem failed_query_without_drop_counterexample:
  "transport ex_env ex_c (find_message ex_env ex_state) = Inl RpcTimeout
   \<and> snd (queryContact ex_env ex_state [] ex_c)
       = [Send ex_c (find_message ex_env ex_state), RemoveContact ex_c]
   \<and> emitted ex_router = []
   \<and> Router_removeContact ex_env ex_router ex_c = (Inl NotInBucket, ex_router)"
  by (simp add: queryContact_def submit_removeContact_def Router_removeContact_def getBucket_def
        load_def Bucket_removeContact_def lodash_indexOf_def store_bucket_def Let_def
        ex_env_def ex_cfg_def ex_getBucketIndex_def ex_self_def ex_c_def ex_router_def ex_table_def
        ex_bucket_def)

text \<open>
  C8, amended. For every queried contact (as \<^verbatim>\<open>_createContact\<close> builds it from the
  entry of the batch) whose query fails, by a transport error or by
  a returned item that fails validation (in a lookup state whose closest distance is
  set, the contact passing the bucket-index assertions), the lookup removes every
  shortlist entry bearing the contact's node id and submits the contact to
  \<^verbatim>\<open>removeContact\<close>; only the transport error counts as a failure of the query. When the
  bucket of the contact's index exists and holds the contact's node id,
  \<^verbatim>\<open>removeContact\<close> removes the node id from the bucket's order, saves the order under
  the bucket's index and emits a \<^verbatim>\<open>drop\<close> event for the contact.
\<close>

theorem failed_query_removes_contact:
  "(createContact e info = contact
      \<and> transport e contact (find_message e st) = Inl err
      \<and> getBucketIndex e (nodeID (self e)) (nodeID contact) < B (cfg e)
    \<longrightarrow> (\<exists>st'. queryContact e st log info
                  = (Inr (st', True), log @ [Send contact (find_message e st), RemoveContact contact])
              \<and> shortlist st' = filter (\<lambda>c. nodeID c \<noteq> nodeID contact) (shortlist st)))
   \<and> (createContact e info = contact
      \<and> transport e contact (find_message e st) = Inr msg \<and> type st = VALUE
      \<and> result_item msg = Some it \<and> \<not> validateKeyValuePair e (key st) (item_value it)
      \<and> closestNodeDistance st = Some d
      \<and> getBucketIndex e (nodeID (self e)) (nodeID contact) < B (cfg e)
    \<longrightarrow> (\<exists>st'. queryContact e st log info
                  = (Inr (st', False),
                     log @ [Send contact (find_message e st),
                            UpdateContact (contact\<lparr>lastSeen := clock e\<rparr>),
                            RemoveContact (contact\<lparr>lastSeen := clock e\<rparr>)])
              \<and> shortlist st' = filter (\<lambda>c. nodeID c \<noteq> nodeID contact) (shortlist st)))
   \<and> (getBucketIndex e (nodeID (self e)) (nodeID contact) < B (cfg e)
      \<and> buckets (routingTable r) = Some bs
      \<and> map_of bs (getBucketIndex e (nodeID (self e)) (nodeID contact)) = Some b
      \<and> hasContact b (nodeID contact)
    \<longrightarrow> (\<exists>bs' b'. buckets (routingTable (snd (Router_removeContact e r contact))) = Some bs'
              \<and> map_of bs' (getBucketIndex e (nodeID (self e)) (nodeID contact)) = Some b'
              \<and> contacts b' = remove1 (nodeID contact) (contacts b)
              \<and> bucket_records (bucket_storage b') (index b') = Some (contacts b')
              \<and> emitted (snd (Router_removeContact e r contact)) = emitted r @ [Drop contact]))"
proof (intro conjI impI)
  assume "createContact e info = contact
      \<and> transport e contact (find_message e st) = Inl err
      \<and> getBucketIndex e (nodeID (self e)) (nodeID contact) < B (cfg e)"
  then show "\<exists>st'. queryContact e st log info
                  = (Inr (st', True), log @ [Send contact (find_message e st), RemoveContact contact])
              \<and> shortlist st' = filter (\<lambda>c. nodeID c \<noteq> nodeID contact) (shortlist st)"
    by (auto simp add: queryContact_transport_error removeFromShortList_def)
next
  assume "createContact e info = contact
      \<and> transport e contact (find_message e st) = Inr msg \<and> type st = VALUE
      \<and> result_item msg = Some it \<and> \<not> validateKeyValuePair e (key st) (item_value it)
      \<and> closestNodeDistance st = Some d
      \<and> getBucketIndex e (nodeID (self e)) (nodeID contact) < B (cfg e)"
  then show "\<exists>st'. queryContact e st log info
                  = (Inr (st', False),
                     log @ [Send contact (find_message e st),
                            UpdateContact (contact\<lparr>lastSeen := clock e\<rparr>),
                            RemoveContact (contact\<lparr>lastSeen := clock e\<rparr>)])
              \<and> shortlist st' = filter (\<lambda>c. nodeID c \<noteq> nodeID contact) (shortlist st)"
    by (auto simp add: queryContact_def handleFindResult_def validateFindResult_def
          submit_updateContact_def submit_removeContact_def removeFromShortList_def Let_def)
next
  assume a: "getBucketIndex e (nodeID (self e)) (nodeID contact) < B (cfg e)
      \<and> buckets (routingTable r) = Some bs
      \<and> map_of bs (getBucketIndex e (nodeID (self e)) (nodeID contact)) = Some b
      \<and> hasContact b (nodeID contact)"
  let ?i = "getBucketIndex e (nodeID (self e)) (nodeID contact)"
  let ?b' = "Bucket_save (b\<lparr>contacts := remove1 (nodeID contact) (contacts b)\<rparr>)"
  from a have r: "Router_removeContact e r contact
           = (Inl NotInBucket,
              r\<lparr>routingTable := (routingTable r)\<lparr>buckets := Some (AList.update ?i ?b' bs)\<rparr>,
                 emitted := emitted r @ [Drop contact]\<rparr>)"
    by (simp add: Router_removeContact_present)
  have "map_of (AList.update ?i ?b' bs) ?i = Some ?b'"
    by (simp add: update_Some_unfold)
  moreover have "contacts ?b' = remove1 (nodeID contact) (contacts b)"
    using Bucket_save_order [of "b\<lparr>contacts := remove1 (nodeID contact) (contacts b)\<rparr>"] by simp
  moreover have "bucket_records (bucket_storage ?b') (index ?b') = Some (contacts ?b')"
    using Bucket_save_order [of "b\<lparr>contacts := remove1 (nodeID contact) (contacts b)\<rparr>"] by simp
  ultimately show "\<exists>bs' b'. buckets (routingTable (snd (Router_removeContact e r contact))) = Some bs'
              \<and> map_of bs' ?i = Some b'
              \<and> contacts b' = remove1 (nodeID contact) (contacts b)
              \<and> bucket_records (bucket_storage b') (index b') = Some (contacts b')
              \<and> emitted (snd (Router_removeContact e r contact)) = emitted r @ [Drop contact]"
    using r by simp
qed

theorem failed_query_removes_contact_witness:
  "createContact ex_env ex_a = ex_a
   \<and> createContact ex_env_invalid ex_a = ex_a
   \<and> transport ex_env ex_a (find_message ex_env ex_state) = Inl RpcTimeout
   \<and> getBucketIndex ex_env (nodeID (self ex_env)) (nodeID ex_a) < B (cfg ex_env)
   \<and> (\<exists>st'. queryContact ex_env ex_state [] ex_a
              = (Inr (st', True), [Send ex_a (find_message ex_env ex_state), RemoveContact ex_a])
          \<and> shortlist st' = [ex_b, ex_c])
   \<and> transport ex_env_invalid ex_a (find_message ex_env_invalid ex_state_value)
        = Inr \<lparr>result_nodes = [], result_item = Some ex_item\<rparr>
   \<and> \<not> validateKeyValuePair ex_env_invalid (key ex_state_value) (item_value ex_item)
   \<and> (\<exists>st'. queryContact ex_env_invalid ex_state_value [] ex_a
              = (Inr (st', False),
                 [Send ex_a (find_message ex_env_invalid ex_state_value),
                  UpdateContact (ex_a\<lparr>lastSeen := 100\<rparr>), RemoveContact (ex_a\<lparr>lastSeen := 100\<rparr>)])
          \<and> shortlist st' = [])
   \<and> map_of (the (buckets (routingTable ex_router)))
        (getBucketIndex ex_env (nodeID (self ex_env)) (nodeID ex_a)) = Some ex_bucket
   \<and> hasContact ex_bucket (nodeID ex_a)
   \<and> (\<exists>bs' b'. buckets (routingTable (snd (Router_removeContact ex_env ex_router ex_a))) = Some bs'
          \<and> map_of bs' 0 = Some b'
          \<and> contacts b' = [5]
          \<and> bucket_records (bucket_storage b') (index b') = Some [5]
          \<and> emitted (snd (Router_removeContact ex_env ex_router ex_a)) = [Drop ex_a])"
proof -
  have i: "getBucketIndex ex_env (nodeID (self ex_env)) (nodeID ex_a) = 0"
    by (simp add: ex_env_def ex_getBucketIndex_def ex_self_def ex_a_def)
  have i': "getBucketIndex ex_env_invalid (nodeID (self ex_env_invalid)) (nodeID ex_a) = 0"
    by (simp add: ex_env_invalid_def ex_env_def ex_getBucketIndex_def ex_self_def ex_a_def)
  have Bv: "B (cfg ex_env) = 3" "B (cfg ex_env_invalid) = 3"
    by (simp_all add: ex_env_invalid_def ex_env_def ex_cfg_def)
  have a0: "createContact ex_env ex_a = ex_a" by (simp add: ex_env_def)
  have b0: "createContact ex_env_invalid ex_a = ex_a" by (simp add: ex_env_invalid_def ex_env_def)
  have a1: "transport ex_env ex_a (find_message ex_env ex_state) = Inl RpcTimeout"
    by (simp add: ex_env_def)
  have a2: "getBucketIndex ex_env (nodeID (self ex_env)) (nodeID ex_a) < B (cfg ex_env)"
    by (simp add: i Bv)
  have b1: "transport ex_env_invalid ex_a (find_message ex_env_invalid ex_state_value)
              = Inr \<lparr>result_nodes = [], result_item = Some ex_item\<rparr>"
    by (simp add: ex_env_invalid_def)
  have b2: "type ex_state_value = VALUE" by (simp add: ex_state_value_def)
  have b3: "result_item \<lparr>result_nodes = [], result_item = Some ex_item\<rparr> = Some ex_item" by simp
  have b4: "\<not> validateKeyValuePair ex_env_invalid (key ex_state_value) (item_value ex_item)"
    by (simp add: validateKeyValuePair_def ex_env_invalid_def)
  have b5: "closestNodeDistance ex_state_value = Some 7"
    by (simp add: ex_state_value_def ex_state_def)
  have b6: "getBucketIndex ex_env_invalid (nodeID (self ex_env_invalid)) (nodeID ex_a) < B (cfg ex_env_invalid)"
    by (simp add: i' Bv)
  have c2: "buckets (routingTable ex_router) = Some [(0, ex_bucket), (1, ex_empty_bucket)]"
    by (simp add: ex_router_def ex_table_def)
  have c3: "map_of [(0, ex_bucket), (1, ex_empty_bucket)]
              (getBucketIndex ex_env (nodeID (self ex_env)) (nodeID ex_a)) = Some ex_bucket"
    by (simp add: i)
  have c4: "hasContact ex_bucket (nodeID ex_a)"
    by (simp add: hasContact_def ex_bucket_def ex_a_def)
  note thm_a = failed_query_removes_contact
    [where e = ex_env and info = ex_a and contact = ex_a and st = ex_state and err = RpcTimeout
       and log = "[]",
     THEN conjunct1, rule_format, OF conjI [OF a0 conjI [OF a1 a2]]]
  note thm_b = failed_query_removes_contact
    [where e = ex_env_invalid and info = ex_a and contact = ex_a and st = ex_state_value and log = "[]"
       and msg = "\<lparr>result_nodes = [], result_item = Some ex_item\<rparr>" and it = ex_item and d = 7,
     THEN conjunct2, THEN conjunct1, rule_format, OF conjI [OF b0 conjI [OF b1 conjI [OF b2 conjI [OF b3 conjI [OF b4 conjI [OF b5 b6]]]]]]]
  note thm_c = failed_query_removes_contact
    [where e = ex_env and contact = ex_a and r = ex_router and b = ex_bucket
       and bs = "[(0, ex_bucket), (1, ex_empty_bucket)]",
     THEN conjunct2, THEN conjunct2, rule_format, OF conjI [OF a2 conjI [OF c2 conjI [OF c3 c4]]]]
  have f1: "filter (\<lambda>c. nodeID c \<noteq> nodeID ex_a) (shortlist ex_state) = [ex_b, ex_c]"
    by (simp add: ex_state_def ex_a_def ex_b_def ex_c_def)
  have f2: "filter (\<lambda>c. nodeID c \<noteq> nodeID ex_a) (shortlist ex_state_value) = []"
    by (simp add: ex_state_value_def ex_state_def)
  have f3: "remove1 (nodeID ex_a) (contacts ex_bucket) = [5]"
    by (simp add: ex_bucket_def ex_a_def)
  have f4: "clock ex_env_invalid = 100" "emitted ex_router = []"
    by (simp_all add: ex_env_invalid_def ex_env_def ex_router_def)
  from thm_c obtain bs' b' where
    c: "buckets (routingTable (snd (Router_removeContact ex_env ex_router ex_a))) = Some bs'"
       "map_of bs' 0 = Some b'" "contacts b' = [5]"
       "bucket_records (bucket_storage b') (index b') = Some [5]"
       "emitted (snd (Router_removeContact ex_env ex_router ex_a)) = [Drop ex_a]"
    by (auto simp add: f3 f4 i)
  then have C: "\<exists>bs' b'. buckets (routingTable (snd (Router_removeContact ex_env ex_router ex_a))) = Some bs'
          \<and> map_of bs' 0 = Some b'
          \<and> contacts b' = [5]
          \<and> bucket_records (bucket_storage b') (index b') = Some [5]
          \<and> emitted (snd (Router_removeContact ex_env ex_router ex_a)) = [Drop ex_a]"
    by blast
  show ?thesis
    using thm_a thm_b C a0 b0 a1 a2 b1 b4 c4
    by (simp add: f1 f2 f4 i c2)
qed

section \<open>Properties of getNearestContacts\<close>

text \<open>
  A bucket visit either throws or leaves the collected contacts as they were, so
  \<^verbatim>\<open>getNearestContacts\<close> never hands a contact to its callback.
\<close>

lemma createBucket_keeps_collected:
  "createBucket e k lim n acc i = Inr acc' \<Longrightarrow> fst acc' = fst acc"
  by (auto simp: createBucket_def split: prod.splits sum.splits)

lemma ascending_keeps_collected:
  "ascending e k lim n acc i = Inr acc' \<Longrightarrow> fst acc' = fst acc"
proof (induction e k lim n acc i rule: ascending.induct)
  case (1 e k lim n acc i)
  show ?case
  proof (cases "length (fst acc) < lim \<and> i < B (cfg e) - 1")
    case True
    with "1.prems" obtain acc1 where
      c: "createBucket e k lim n acc (i + 1) = Inr acc1" and
      a: "ascending e k lim n acc1 (i + 1) = Inr acc'"
      by (subst (asm) ascending.simps) (auto split: sum.splits)
    from "1.IH" [OF True c a] createBucket_keeps_collected [OF c] show ?thesis by simp
  next
    case False
    with "1.prems" show ?thesis by (subst (asm) ascending.simps) auto
  qed
qed

lemma descending_keeps_collected:
  "descending e k lim n acc i = Inr acc' \<Longrightarrow> fst acc' = fst acc"
proof (induction e k lim n acc i rule: descending.induct)
  case (1 e k lim n acc i)
  show ?case
  proof (cases "length (fst acc) < lim \<and> 0 < i")
    case True
    with "1.prems" obtain acc1 where
      c: "createBucket e k lim n acc (i - 1) = Inr acc1" and
      a: "descending e k lim n acc1 (i - 1) = Inr acc'"
      by (subst (asm) descending.simps) (auto split: sum.splits)
    from "1.IH" [OF True c a] createBucket_keeps_collected [OF c] show ?thesis by simp
  next
    case False
    with "1.prems" show ?thesis by (subst (asm) descending.simps) auto
  qed
qed

lemma getNearestContacts_returns_no_contact:
  "getNearestContacts e rt k lim n = Inr (collected, rt') \<Longrightarrow> collected = []"
  by (auto simp: getNearestContacts_def Let_def split: sum.splits
           dest!: createBucket_keeps_collected ascending_keeps_collected descending_keeps_collected)

text \<open>
  Given a bucket, the selection inside one visit is the one C4 describes: the cached
  contacts in ascending distance to the key, cut at the limit, and collected up to the
  limit without the excluded node id.
\<close>

lemma getNearestFromBucket_of_bucket:
  "getNearestFromBucket (Obj b) k lim = Inr nearest \<Longrightarrow>
     sorted (map (\<lambda>contact. getDistance (nodeID contact) k) nearest)
     \<and> length nearest \<le> lim \<and> set nearest \<subseteq> set (getContactList b)"
proof -
  assume a: "getNearestFromBucket (Obj b) k lim = Inr nearest"
  let ?f = "\<lambda>contact. getDistance (nodeID contact) k"
  from a have n: "nearest = take lim (sort_key ?f (getContactList b))"
    by (simp add: getNearestFromBucket_def)
  have "sorted (map ?f (take lim (sort_key ?f (getContactList b))))"
    using sorted_sort_key [of ?f "getContactList b"]
    by (simp add: take_map [symmetric] sorted_wrt_take)
  moreover have "set (take lim (sort_key ?f (getContactList b))) \<subseteq> set (getContactList b)"
    using set_take_subset [of lim "sort_key ?f (getContactList b)"] by simp
  ultimately show ?thesis using n by simp
qed

lemma addToContacts_bounded:
  "length collected \<le> lim \<Longrightarrow> length (addToContacts lim n collected nearest) \<le> lim"
  by (induction nearest arbitrary: collected) auto

lemma addToContacts_excludes:
  "c \<in> set (addToContacts lim n collected nearest) \<Longrightarrow> c \<in> set collected \<or> nodeID c \<noteq> n"
proof (induction nearest arbitrary: collected)
  case Nil
  then show ?case by simp
next
  case (Cons a rest)
  show ?case
  proof (cases "length collected < lim \<and> nodeID a \<noteq> n")
    case True
    with Cons.prems have "c \<in> set (addToContacts lim n (collected @ [a]) rest)" by simp
    from Cons.IH [OF this] have "c \<in> set collected \<or> c = a \<or> nodeID c \<noteq> n" by auto
    with True show ?thesis by blast
  next
    case False
    with Cons.prems have "c \<in> set (addToContacts lim n collected rest)" by auto
    from Cons.IH [OF this] show ?thesis .
  qed
qed

text \<open>
  C4. \<^verbatim>\<open>get_nearest_contacts\<close> is claimed to return the nearest contacts of the visited
  buckets. In \<open>ex_table\<close> the natural bucket of the key \<^verbatim>\<open>abcd\<close> is bucket 0, which
  holds the contacts 4 and 5 and loads both records; the task after
  \<^verbatim>\<open>bucket.loadContacts\<close> then receives the continuation in place of the bucket, and the
  call throws a TypeError where the claim has the contact 4 returned.
\<close>

theorem getNearestContacts_throws_on_loaded_bucket:
  "getBucketIndex ex_env (nodeID (self ex_env)) (createID ex_env ''abcd'') = 0
   \<and> map_of (the (buckets ex_table)) 0 = Some ex_bucket
   \<and> fst (loadContacts ex_bucket) = Inr ()
   \<and> getNearestContacts ex_env ex_table ''abcd'' 1 (nodeID (self ex_env)) = Inl TypeError"
  by (simp add: getNearestContacts_def createBucket_def hasBucket_def getBucket_def load_def
        loadContacts_def addNearestFromBucket_def getNearestFromBucket_def Bucket_length_def
        ex_env_def ex_cfg_def ex_getBucketIndex_def ex_self_def ex_table_def ex_bucket_def
        ex_contact_store_def ex_store_def)

section \<open>Properties of updateContact\<close>

text \<open>
  The final callback of the waterfall in \<^verbatim>\<open>updateContact\<close> never receives a bucket, so
  every call ends in an exception: an AssertionError of the index assertion or of the
  Bucket constructor, or the TypeError of \<^verbatim>\<open>bucket.hasContact\<close> on \<^verbatim>\<open>undefined\<close>.
\<close>

lemma updateContact_always_throws:
  "isl (fst (updateContact e r contact))"
  by (auto simp: updateContact_def updateContact_final_def Let_def split: prod.splits sum.splits)

text \<open>
  C1 speaks of the calls of \<^verbatim>\<open>update_contact\<close> that complete successfully. In
  \<open>ex_router\<close>, \<^verbatim>\<open>updateContact\<close> throws a TypeError for contact 5, which bucket 0 holds,
  and for contact 6, which it does not hold; on a router constructed over an empty
  storage it throws the AssertionError of the Bucket constructor; and no call of
  \<^verbatim>\<open>updateContact\<close> on any router and contact completes, so there is no completed call
  at which the position of the contact could be examined.
\<close>

theorem updateContact_never_completes:
  "fst (updateContact ex_env ex_router ex_b) = Inl TypeError
   \<and> fst (updateContact ex_env ex_router ex_c) = Inl TypeError
   \<and> fst (updateContact ex_env \<lparr>routingTable = RoutingTable_new ex_store, emitted = []\<rparr> ex_c)
       = Inl AssertionError
   \<and> (\<forall>e r contact. isl (fst (updateContact e r contact)))"
  by (simp add: updateContact_always_throws)
     (simp add: updateContact_def updateContact_final_def getBucket_def load_def setContact_def
        Bucket_new_def methods_of_def RoutingTable_methods_def adapter_methods_def
        ex_env_def ex_cfg_def ex_getBucketIndex_def ex_self_def ex_router_def ex_table_def
        RoutingTable_new_def ex_store_def ex_b_def ex_c_def Let_def split: prod.splits)

end
